theory Spec2Isabelle
  imports Complex_Main "HOL-Library.Sublist"
begin

section \<open>Data model of the alert system (alerts.py)\<close>

text \<open>
  Instants are whole seconds, counted from 1970-01-01 00:00:00 of the local clock. The
  source keeps every instant as the text
  \<^verbatim>\<open>%Y-%m-%d %H:%M:%S\<close> and compares these texts with \<^verbatim>\<open>>=\<close> and \<^verbatim>\<open><\<close>; the text is
  fixed-width with the most significant field first, so it orders as the second it
  denotes. The clock reading \<^verbatim>\<open>datetime.now()\<close> is the parameter \<open>now\<close> of each
  operation, one reading per call.
\<close>

type_synonym instant = int

definition hours_delta :: "int \<Rightarrow> int" where
  "hours_delta h = h * 3600"

definition minutes_delta :: "int \<Rightarrow> int" where
  "minutes_delta m = m * 60"


text \<open>
  One row of the table \<^verbatim>\<open>wifi_scans\<close>, with the columns the alert queries read:
  \<^verbatim>\<open>timestamp TEXT NOT NULL, room TEXT NOT NULL, ssid TEXT NOT NULL, signal INTEGER\<close>.
\<close>

record wifi_scan =
  scan_timestamp :: instant
  room :: string
  ssid :: string
  signal :: int

text \<open>The values of an alert's \<^verbatim>\<open>data\<close> dictionary: text, float or integer.\<close>

datatype jvalue = JStr string | JNum real | JInt int

text \<open>
  An alert is the dictionary built by \<^verbatim>\<open>add_alert\<close>, with the keys
  \<^verbatim>\<open>timestamp, type, message, severity, data\<close>; \<^verbatim>\<open>data\<close> keeps its keys in insertion order.
\<close>

record alert =
  timestamp :: instant
  alert_type :: string
  message :: string
  severity :: string
  data :: "(string \<times> jvalue) list"

text \<open>
  The exceptions of the model: \<^verbatim>\<open>sqlite3.OperationalError\<close> from a database call,
  \<^verbatim>\<open>OSError\<close> from writing \<^verbatim>\<open>alerts.json\<close>, \<^verbatim>\<open>OverflowError\<close> from date arithmetic.
  A database read either raises or returns the rows of the table.
\<close>

datatype error = OperationalError | OSError | OverflowError

type_synonym db_read = "error + wifi_scan list"

subsection \<open>Thresholds\<close>

definition SIGNAL_DEGRADATION_THRESHOLD :: real where
  "SIGNAL_DEGRADATION_THRESHOLD = -10"

definition POOR_SIGNAL_THRESHOLD :: real where
  "POOR_SIGNAL_THRESHOLD = -80"

definition NETWORK_DISAPPEARANCE_MINUTES :: int where
  "NETWORK_DISAPPEARANCE_MINUTES = 30"

section \<open>The alert ledger\<close>

text \<open>
  \<^verbatim>\<open>self.alerts\<close> is the ledger; \<^verbatim>\<open>add_alert\<close> appends to it and returns the new alert.
  Every caller in the source passes a non-empty \<^verbatim>\<open>data\<close> dictionary, and for the empty
  one \<^verbatim>\<open>data or {}\<close> is the empty dictionary again.
  Here the write of the file by \<^verbatim>\<open>save_alerts\<close> succeeds; \<open>add_alert_saving\<close> further down
  has the write that fails.
\<close>

definition add_alert ::
  "instant \<Rightarrow> string \<Rightarrow> string \<Rightarrow> string \<Rightarrow> (string \<times> jvalue) list \<Rightarrow> alert list
    \<Rightarrow> alert \<times> alert list" where
  "add_alert now atype msg sev d alerts =
     (let a = \<lparr>timestamp = now, alert_type = atype, message = msg, severity = sev, data = d\<rparr>
      in (a, alerts @ [a]))"

definition get_recent_alerts :: "instant \<Rightarrow> int \<Rightarrow> alert list \<Rightarrow> alert list" where
  "get_recent_alerts now hours alerts =
     (let cutoff = now - hours_delta hours
      in filter (\<lambda>a. timestamp a \<ge> cutoff) alerts)"


subsection \<open>The cutoff text of a long duration\<close>

text \<open>
  \<^verbatim>\<open>get_recent_alerts\<close> above compares instants, which is the comparison of the texts as
  long as both years have four digits. The duration \<^verbatim>\<open>hours\<close> comes from the request
  (\<^verbatim>\<open>/api/alerts?hours=\<close>) and can carry the cutoff out of that range:
  \<^verbatim>\<open>datetime.now() - timedelta(hours=hours)\<close> raises \<^verbatim>\<open>OverflowError\<close> outside the years 1 to
  9999, and \<^verbatim>\<open>%Y\<close> prints a year below 1000 without leading zeros, so that the text is
  shorter and no longer orders as the instant.

  \<open>days_before_year\<close> and the year of an ordinal are those of Python's \<^verbatim>\<open>datetime\<close>
  (\<^verbatim>\<open>_days_before_year\<close>, \<^verbatim>\<open>_ord2ymd\<close>).
\<close>

definition days_before_year :: "int \<Rightarrow> int" where
  "days_before_year year = (let y = year - 1 in y * 365 + y div 4 - y div 100 + y div 400)"

definition year_start :: "int \<Rightarrow> instant" where
  "year_start year = (days_before_year year - days_before_year 1970) * 86400"

definition year_of :: "instant \<Rightarrow> int" where
  "year_of t =
     (let n = (t - year_start 1) div 86400;
          n400 = n div 146097; r400 = n mod 146097;
          n100 = r400 div 36524; r100 = r400 mod 36524;
          n4 = r100 div 1461; r4 = r100 mod 1461;
          n1 = r4 div 365;
          year = n400 * 400 + 1 + n100 * 100 + n4 * 4 + n1
      in if n1 = 4 \<or> n100 = 4 then year - 1 else year)"

text \<open>The number of digits \<^verbatim>\<open>%Y\<close> prints for an instant of the years 1 to 9999.\<close>

definition year_width :: "instant \<Rightarrow> nat" where
  "year_width t =
     (if t < year_start 10 then 1 else if t < year_start 100 then 2
      else if t < year_start 1000 then 3 else 4)"

text \<open>
  \<open>strftime_ge a c\<close>: the text of \<open>a\<close> is \<^verbatim>\<open>>=\<close> the text of \<open>c\<close>. Texts with years of the same
  width have the same layout and order as the instants. Otherwise the year digits decide
  up to the end of the shorter year, and there a digit of the longer year meets the
  \<^verbatim>\<open>-\<close> after the shorter one; a digit is greater than \<^verbatim>\<open>-\<close>.
\<close>

definition strftime_ge :: "instant \<Rightarrow> instant \<Rightarrow> bool" where
  "strftime_ge a c =
     (let ka = year_width a; kc = year_width c
      in if ka = kc then c \<le> a
         else if kc < ka then year_of c \<le> year_of a div 10 ^ (ka - kc)
         else year_of c div 10 ^ (kc - ka) < year_of a)"

definition get_recent_alerts_strftime ::
  "instant \<Rightarrow> int \<Rightarrow> alert list \<Rightarrow> error + alert list" where
  "get_recent_alerts_strftime now hours alerts =
     (let cutoff = now - hours_delta hours
      in if cutoff < year_start 1 \<or> year_start 10000 \<le> cutoff then Inl OverflowError
         else Inr (filter (\<lambda>a. strftime_ge (timestamp a) cutoff) alerts))"

section \<open>Aggregation and conversion\<close>

text \<open>
  SQL \<^verbatim>\<open>AVG(signal)\<close> over the selected rows: \<^verbatim>\<open>NULL\<close> (Python \<^verbatim>\<open>None\<close>) when no row is
  selected, otherwise the sum divided by the count. Here, and in the poor-signal check,
  the quotient is the exact number; the degradation check, whose comparison is sensitive to
  the rounding, has the doubles (see below).
\<close>

definition sql_avg :: "int list \<Rightarrow> real option" where
  "sql_avg xs = (if xs = [] then None else Some (real_of_int (sum_list xs) / real (length xs)))"

text \<open>
  The conversion \<^verbatim>\<open>avg / 2.0 - 100.0\<close> that alerts.py writes out for \<^verbatim>\<open>recent_avg\<close>,
  \<^verbatim>\<open>previous_avg\<close> and \<^verbatim>\<open>avg_signal\<close>.
\<close>

definition avg_to_dbm :: "real \<Rightarrow> real" where
  "avg_to_dbm avg = avg / 2 - 100"

text \<open>
  The per-row conversion of analyzer.py, \<^verbatim>\<open>load_all_data\<close>:
  \<^verbatim>\<open>lambda x: x / 2.0 - 100.0 if x > 0 else x\<close>.
\<close>

definition signal_dbm :: "int \<Rightarrow> real" where
  "signal_dbm x = (if x > 0 then real_of_int x / 2 - 100 else real_of_int x)"

text \<open>
  The aggregate as the specification words it: each matching measurement is converted
  on its own by the rule above, then the unweighted arithmetic mean is taken; undefined
  when nothing matches.
\<close>

definition spec_mean_dbm :: "int list \<Rightarrow> real option" where
  "spec_mean_dbm xs =
     (if xs = [] then None else Some (sum_list (map signal_dbm xs) / real (length xs)))"

text \<open>
  Python's \<^verbatim>\<open>round(x, 1)\<close>: to the nearest tenth, a tie going to the even neighbour.
\<close>

definition round1 :: "real \<Rightarrow> real" where
  "round1 x =
     (let y = x * 10; f = \<lfloor>y\<rfloor>; d = y - of_int f
      in of_int (if d < 1 / 2 then f else if 1 / 2 < d then f + 1
                 else if even f then f else f + 1) / 10)"

subsection \<open>Double precision\<close>

text \<open>
  \<^verbatim>\<open>check_signal_degradation\<close> compares a difference of two converted averages with the
  threshold, and the outcome depends on how the floats round: its arithmetic is modelled
  in binary64. \<open>fl x\<close> is the double nearest to \<open>x\<close>, a tie going to the even
  significand, with 53 significant bits. The exponent range is not limited; every value
  computed from 64-bit integer signals is far inside the normal range of a double.
\<close>

definition round_half_even :: "real \<Rightarrow> int" where
  "round_half_even y =
     (let f = \<lfloor>y\<rfloor>; d = y - of_int f
      in if d < 1 / 2 then f else if 1 / 2 < d then f + 1 else if even f then f else f + 1)"

definition fl :: "real \<Rightarrow> real" where
  "fl x =
     (if x = 0 then 0
      else (let e = \<lfloor>log 2 \<bar>x\<bar>\<rfloor> - 52
            in of_int (round_half_even (x / 2 powr of_int e)) * 2 powr of_int e))"

text \<open>
  SQLite's \<^verbatim>\<open>AVG\<close> of an INTEGER column: the integer sum and the count are converted to
  double and divided.
\<close>

definition avg_double :: "int list \<Rightarrow> real option" where
  "avg_double xs =
     (if xs = [] then None
      else Some (fl (fl (real_of_int (sum_list xs)) / fl (real (length xs)))))"

text \<open>\<^verbatim>\<open>avg / 2.0 - 100.0\<close> on doubles: the quotient is rounded, then the difference.\<close>

definition dbm_double :: "real \<Rightarrow> real" where
  "dbm_double avg = fl (fl (avg / 2) - 100)"

text \<open>
  \<^verbatim>\<open>round(x, 1)\<close> of a double: the exact value of \<open>x\<close> rounded to one decimal, then the
  double nearest to that decimal.
\<close>

definition py_round1 :: "real \<Rightarrow> real" where
  "py_round1 x = fl (round1 x)"

section \<open>Signal degradation\<close>

text \<open>
  The rows selected by the two queries of \<^verbatim>\<open>check_signal_degradation\<close>, and the average
  of their signals, first as the exact number, then as the double the query returns.
\<close>

definition recent_rows :: "instant \<Rightarrow> string \<Rightarrow> string \<Rightarrow> wifi_scan list \<Rightarrow> wifi_scan list" where
  "recent_rows cutoff_recent rm s rows =
     filter (\<lambda>r. room r = rm \<and> ssid r = s \<and> scan_timestamp r \<ge> cutoff_recent) rows"

definition previous_rows ::
  "instant \<Rightarrow> instant \<Rightarrow> string \<Rightarrow> string \<Rightarrow> wifi_scan list \<Rightarrow> wifi_scan list" where
  "previous_rows cutoff_previous cutoff_recent rm s rows =
     filter (\<lambda>r. room r = rm \<and> ssid r = s \<and> scan_timestamp r \<ge> cutoff_previous
                 \<and> scan_timestamp r < cutoff_recent) rows"

definition recent_avg :: "instant \<Rightarrow> string \<Rightarrow> string \<Rightarrow> wifi_scan list \<Rightarrow> real option" where
  "recent_avg cutoff_recent rm s rows = sql_avg (map signal (recent_rows cutoff_recent rm s rows))"

definition previous_avg ::
  "instant \<Rightarrow> instant \<Rightarrow> string \<Rightarrow> string \<Rightarrow> wifi_scan list \<Rightarrow> real option" where
  "previous_avg cutoff_previous cutoff_recent rm s rows =
     sql_avg (map signal (previous_rows cutoff_previous cutoff_recent rm s rows))"

definition recent_avg_double ::
  "instant \<Rightarrow> string \<Rightarrow> string \<Rightarrow> wifi_scan list \<Rightarrow> real option" where
  "recent_avg_double cutoff_recent rm s rows =
     avg_double (map signal (recent_rows cutoff_recent rm s rows))"

definition previous_avg_double ::
  "instant \<Rightarrow> instant \<Rightarrow> string \<Rightarrow> string \<Rightarrow> wifi_scan list \<Rightarrow> real option" where
  "previous_avg_double cutoff_previous cutoff_recent rm s rows =
     avg_double (map signal (previous_rows cutoff_previous cutoff_recent rm s rows))"

text \<open>
  \<^verbatim>\<open>if recent_avg and previous_avg\<close> tests the truth value of each average: \<^verbatim>\<open>None\<close> is
  false, and so is the float \<^verbatim>\<open>0.0\<close>.
\<close>

definition truthy :: "real option \<Rightarrow> bool" where
  "truthy v = (case v of None \<Rightarrow> False | Some x \<Rightarrow> x \<noteq> 0)"

definition check_signal_degradation ::
  "instant \<Rightarrow> db_read \<Rightarrow> string \<Rightarrow> string \<Rightarrow> alert list
    \<Rightarrow> (error + alert option) \<times> alert list" where
  "check_signal_degradation now db rm s alerts =
     (case db of
        Inl e \<Rightarrow> (Inl e, alerts)
      | Inr rows \<Rightarrow>
          (let cutoff_recent = now - hours_delta 1;
               cutoff_previous = now - hours_delta 2;
               ra = recent_avg_double cutoff_recent rm s rows;
               pa = previous_avg_double cutoff_previous cutoff_recent rm s rows
           in if truthy ra \<and> truthy pa then
                (case (ra, pa) of
                   (Some r, Some p) \<Rightarrow>
                     (let recent_dbm = dbm_double r;
                          previous_dbm = dbm_double p;
                          degradation = fl (recent_dbm - previous_dbm)
                      in if degradation < SIGNAL_DEGRADATION_THRESHOLD then
                           (let (a, alerts') =
                                  add_alert now ''signal_degradation''
                                    (''Signal degradation detected for '' @ s @ '' in '' @ rm)
                                    ''warning''
                                    [(''room'', JStr rm), (''ssid'', JStr s),
                                     (''previous_signal'', JNum (py_round1 previous_dbm)),
                                     (''current_signal'', JNum (py_round1 recent_dbm)),
                                     (''degradation'', JNum (py_round1 degradation))]
                                    alerts
                            in (Inr (Some a), alerts'))
                         else (Inr None, alerts))
                 | _ \<Rightarrow> (Inr None, alerts))
              else (Inr None, alerts)))"

section \<open>Poor signal\<close>

text \<open>
  The query of \<^verbatim>\<open>check_poor_signal\<close>: \<^verbatim>\<open>WHERE timestamp >= cutoff\<close>,
  \<^verbatim>\<open>GROUP BY room, ssid\<close>, \<^verbatim>\<open>HAVING avg_signal > 0\<close>. SQL leaves the order of the groups
  open; the model lists each group once, in the order of \<open>remdups\<close>.
\<close>

definition poor_signal_query :: "instant \<Rightarrow> wifi_scan list \<Rightarrow> (string \<times> string \<times> real) list" where
  "poor_signal_query cutoff rows =
     (let selected = filter (\<lambda>r. scan_timestamp r \<ge> cutoff) rows;
          groups = remdups (map (\<lambda>r. (room r, ssid r)) selected)
      in List.map_filter
           (\<lambda>(rm, s).
              case sql_avg (map signal (filter (\<lambda>r. room r = rm \<and> ssid r = s) selected)) of
                None \<Rightarrow> None
              | Some avg_signal \<Rightarrow> if avg_signal > 0 then Some (rm, s, avg_signal) else None)
           groups)"

text \<open>The loop over the fetched rows; \<open>found\<close> is the local list \<^verbatim>\<open>alerts\<close>.\<close>

fun poor_signal_loop ::
  "instant \<Rightarrow> (string \<times> string \<times> real) list \<Rightarrow> alert list \<Rightarrow> alert list
    \<Rightarrow> alert list \<times> alert list" where
  "poor_signal_loop now [] found alerts = (found, alerts)"
| "poor_signal_loop now ((rm, s, avg_signal) # rest) found alerts =
     (let signal_dbm = avg_to_dbm avg_signal
      in if signal_dbm < POOR_SIGNAL_THRESHOLD then
           (let (a, alerts') =
                  add_alert now ''poor_signal''
                    (''Poor signal detected for '' @ s @ '' in '' @ rm)
                    ''info''
                    [(''room'', JStr rm), (''ssid'', JStr s), (''signal'', JNum (round1 signal_dbm))]
                    alerts
            in poor_signal_loop now rest (found @ [a]) alerts')
         else poor_signal_loop now rest found alerts)"

definition check_poor_signal ::
  "instant \<Rightarrow> db_read \<Rightarrow> alert list \<Rightarrow> (error + alert list) \<times> alert list" where
  "check_poor_signal now db alerts =
     (case db of
        Inl e \<Rightarrow> (Inl e, alerts)
      | Inr rows \<Rightarrow>
          (let cutoff = now - hours_delta 1;
               (found, alerts') = poor_signal_loop now (poor_signal_query cutoff rows) [] alerts
           in (Inr found, alerts')))"

section \<open>Network disappearance\<close>

text \<open>
  The query of \<^verbatim>\<open>check_network_disappearance\<close>: the distinct pairs with a row in
  \<^verbatim>\<open>timestamp >= cutoff_old AND timestamp < cutoff_recent\<close> whose pair is
  \<^verbatim>\<open>NOT IN\<close> the pairs with a row \<^verbatim>\<open>timestamp >= cutoff_recent\<close>.
\<close>

definition disappearance_query ::
  "instant \<Rightarrow> instant \<Rightarrow> wifi_scan list \<Rightarrow> (string \<times> string) list" where
  "disappearance_query cutoff_old cutoff_recent rows =
     (let seen_recently =
            remdups (map (\<lambda>r. (room r, ssid r))
                       (filter (\<lambda>r. scan_timestamp r \<ge> cutoff_recent) rows))
      in remdups (map (\<lambda>r. (room r, ssid r))
                    (filter (\<lambda>r. scan_timestamp r \<ge> cutoff_old \<and> scan_timestamp r < cutoff_recent
                                \<and> (room r, ssid r) \<notin> set seen_recently) rows)))"

text \<open>
  The message is the f-string
  \<^verbatim>\<open>Network {ssid} not seen in {room} for {NETWORK_DISAPPEARANCE_MINUTES} minutes\<close>, with the
  constant printed as \<^verbatim>\<open>30\<close>.
\<close>

fun disappearance_loop ::
  "instant \<Rightarrow> (string \<times> string) list \<Rightarrow> alert list \<Rightarrow> alert list \<Rightarrow> alert list \<times> alert list" where
  "disappearance_loop now [] found alerts = (found, alerts)"
| "disappearance_loop now ((rm, s) # rest) found alerts =
     (let (a, alerts') =
            add_alert now ''network_disappeared''
              (''Network '' @ s @ '' not seen in '' @ rm @ '' for 30 minutes'')
              ''warning''
              [(''room'', JStr rm), (''ssid'', JStr s),
               (''minutes_missing'', JInt NETWORK_DISAPPEARANCE_MINUTES)]
              alerts
      in disappearance_loop now rest (found @ [a]) alerts')"

definition check_network_disappearance ::
  "instant \<Rightarrow> db_read \<Rightarrow> alert list \<Rightarrow> (error + alert list) \<times> alert list" where
  "check_network_disappearance now db alerts =
     (case db of
        Inl e \<Rightarrow> (Inl e, alerts)
      | Inr rows \<Rightarrow>
          (let cutoff_recent = now - minutes_delta NETWORK_DISAPPEARANCE_MINUTES;
               cutoff_old = now - hours_delta 2;
               (found, alerts') =
                  disappearance_loop now (disappearance_query cutoff_old cutoff_recent rows) [] alerts
           in (Inr found, alerts')))"

section \<open>Running all checks\<close>

text \<open>
  \<^verbatim>\<open>check_all\<close> calls the poor-signal check and then the disappearance check; each opens
  the database itself (\<open>db1\<close>, \<open>db2\<close>). There is no \<^verbatim>\<open>try\<close> in it: an exception of
  either call leaves \<^verbatim>\<open>check_all\<close> at once, and what was appended to the ledger before
  stays appended.
\<close>

definition check_all ::
  "instant \<Rightarrow> db_read \<Rightarrow> db_read \<Rightarrow> alert list \<Rightarrow> (error + alert list) \<times> alert list" where
  "check_all now db1 db2 alerts =
     (case check_poor_signal now db1 alerts of
        (Inl e, alerts1) \<Rightarrow> (Inl e, alerts1)
      | (Inr found1, alerts1) \<Rightarrow>
          (case check_network_disappearance now db2 alerts1 of
             (Inl e, alerts2) \<Rightarrow> (Inl e, alerts2)
           | (Inr found2, alerts2) \<Rightarrow> (Inr (found1 @ found2), alerts2)))"

subsection \<open>Writes of the ledger file that fail\<close>

text \<open>
  \<^verbatim>\<open>add_alert\<close> appends the alert to \<^verbatim>\<open>self.alerts\<close> and then calls \<^verbatim>\<open>save_alerts\<close>, which
  rewrites \<^verbatim>\<open>alerts.json\<close> with the whole ledger and raises \<^verbatim>\<open>OSError\<close> when the file
  cannot be written. The definitions above are the checks with every write succeeding.
  Below, \<open>saved l\<close> says whether writing the ledger \<open>l\<close> succeeds; when it does not, the
  exception leaves \<^verbatim>\<open>add_alert\<close>, the loop and the check, and the alert stays appended in
  memory.
\<close>

definition add_alert_saving ::
  "(alert list \<Rightarrow> bool) \<Rightarrow> instant \<Rightarrow> string \<Rightarrow> string \<Rightarrow> string \<Rightarrow> (string \<times> jvalue) list
    \<Rightarrow> alert list \<Rightarrow> (error + alert) \<times> alert list" where
  "add_alert_saving saved now atype msg sev d alerts =
     (let a = \<lparr>timestamp = now, alert_type = atype, message = msg, severity = sev, data = d\<rparr>;
          alerts' = alerts @ [a]
      in if saved alerts' then (Inr a, alerts') else (Inl OSError, alerts'))"

fun poor_signal_loop_saving ::
  "(alert list \<Rightarrow> bool) \<Rightarrow> instant \<Rightarrow> (string \<times> string \<times> real) list \<Rightarrow> alert list \<Rightarrow> alert list
    \<Rightarrow> (error + alert list) \<times> alert list" where
  "poor_signal_loop_saving saved now [] found alerts = (Inr found, alerts)"
| "poor_signal_loop_saving saved now ((rm, s, avg_signal) # rest) found alerts =
     (let signal_dbm = avg_to_dbm avg_signal
      in if signal_dbm < POOR_SIGNAL_THRESHOLD then
           (case add_alert_saving saved now ''poor_signal''
                   (''Poor signal detected for '' @ s @ '' in '' @ rm)
                   ''info''
                   [(''room'', JStr rm), (''ssid'', JStr s), (''signal'', JNum (round1 signal_dbm))]
                   alerts of
              (Inl e, alerts') \<Rightarrow> (Inl e, alerts')
            | (Inr a, alerts') \<Rightarrow> poor_signal_loop_saving saved now rest (found @ [a]) alerts')
         else poor_signal_loop_saving saved now rest found alerts)"

definition check_poor_signal_saving ::
  "(alert list \<Rightarrow> bool) \<Rightarrow> instant \<Rightarrow> db_read \<Rightarrow> alert list
    \<Rightarrow> (error + alert list) \<times> alert list" where
  "check_poor_signal_saving saved now db alerts =
     (case db of
        Inl e \<Rightarrow> (Inl e, alerts)
      | Inr rows \<Rightarrow>
          (let cutoff = now - hours_delta 1
           in poor_signal_loop_saving saved now (poor_signal_query cutoff rows) [] alerts))"

fun disappearance_loop_saving ::
  "(alert list \<Rightarrow> bool) \<Rightarrow> instant \<Rightarrow> (string \<times> string) list \<Rightarrow> alert list \<Rightarrow> alert list
    \<Rightarrow> (error + alert list) \<times> alert list" where
  "disappearance_loop_saving saved now [] found alerts = (Inr found, alerts)"
| "disappearance_loop_saving saved now ((rm, s) # rest) found alerts =
     (case add_alert_saving saved now ''network_disappeared''
             (''Network '' @ s @ '' not seen in '' @ rm @ '' for 30 minutes'')
             ''warning''
             [(''room'', JStr rm), (''ssid'', JStr s),
              (''minutes_missing'', JInt NETWORK_DISAPPEARANCE_MINUTES)]
             alerts of
        (Inl e, alerts') \<Rightarrow> (Inl e, alerts')
      | (Inr a, alerts') \<Rightarrow> disappearance_loop_saving saved now rest (found @ [a]) alerts')"

definition check_network_disappearance_saving ::
  "(alert list \<Rightarrow> bool) \<Rightarrow> instant \<Rightarrow> db_read \<Rightarrow> alert list
    \<Rightarrow> (error + alert list) \<times> alert list" where
  "check_network_disappearance_saving saved now db alerts =
     (case db of
        Inl e \<Rightarrow> (Inl e, alerts)
      | Inr rows \<Rightarrow>
          (let cutoff_recent = now - minutes_delta NETWORK_DISAPPEARANCE_MINUTES;
               cutoff_old = now - hours_delta 2
           in disappearance_loop_saving saved now
                (disappearance_query cutoff_old cutoff_recent rows) [] alerts))"

definition check_all_saving ::
  "(alert list \<Rightarrow> bool) \<Rightarrow> instant \<Rightarrow> db_read \<Rightarrow> db_read \<Rightarrow> alert list
    \<Rightarrow> (error + alert list) \<times> alert list" where
  "check_all_saving saved now db1 db2 alerts =
     (case check_poor_signal_saving saved now db1 alerts of
        (Inl e, alerts1) \<Rightarrow> (Inl e, alerts1)
      | (Inr found1, alerts1) \<Rightarrow>
          (case check_network_disappearance_saving saved now db2 alerts1 of
             (Inl e, alerts2) \<Rightarrow> (Inl e, alerts2)
           | (Inr found2, alerts2) \<Rightarrow> (Inr (found1 @ found2), alerts2)))"

text \<open>An alert names a location and a network through its \<^verbatim>\<open>data\<close> dictionary.\<close>

definition alert_names :: "alert \<Rightarrow> string \<Rightarrow> string \<Rightarrow> bool" where
  "alert_names a rm s =
     (map_of (data a) ''room'' = Some (JStr rm) \<and> map_of (data a) ''ssid'' = Some (JStr s))"

text \<open>
  The three dictionaries the checks hand to \<^verbatim>\<open>add_alert\<close>, as functions of what they are
  built from, so that the theorems can name the alert a check emits.
\<close>

definition degradation_alert :: "instant \<Rightarrow> string \<Rightarrow> string \<Rightarrow> real \<Rightarrow> real \<Rightarrow> alert" where
  "degradation_alert now rm s r p =
     \<lparr>timestamp = now, alert_type = ''signal_degradation'',
      message = ''Signal degradation detected for '' @ s @ '' in '' @ rm,
      severity = ''warning'',
      data = [(''room'', JStr rm), (''ssid'', JStr s),
              (''previous_signal'', JNum (py_round1 (dbm_double p))),
              (''current_signal'', JNum (py_round1 (dbm_double r))),
              (''degradation'', JNum (py_round1 (fl (dbm_double r - dbm_double p))))]\<rparr>"

definition poor_alert :: "instant \<Rightarrow> string \<times> string \<times> real \<Rightarrow> alert" where
  "poor_alert now g =
     (case g of (rm, s, avg_signal) \<Rightarrow>
        \<lparr>timestamp = now, alert_type = ''poor_signal'',
         message = ''Poor signal detected for '' @ s @ '' in '' @ rm,
         severity = ''info'',
         data = [(''room'', JStr rm), (''ssid'', JStr s),
                 (''signal'', JNum (round1 (avg_to_dbm avg_signal)))]\<rparr>)"

definition disappeared_alert :: "instant \<Rightarrow> string \<times> string \<Rightarrow> alert" where
  "disappeared_alert now k =
     (case k of (rm, s) \<Rightarrow>
        \<lparr>timestamp = now, alert_type = ''network_disappeared'',
         message = ''Network '' @ s @ '' not seen in '' @ rm @ '' for 30 minutes'',
         severity = ''warning'',
         data = [(''room'', JStr rm), (''ssid'', JStr s), (''minutes_missing'', JInt 30)]\<rparr>)"

section \<open>What the loops and the queries compute\<close>

lemma poor_signal_loop_eq:
  "poor_signal_loop now q found alerts =
     (found @ map (poor_alert now) (filter (\<lambda>(rm, s, v). avg_to_dbm v < POOR_SIGNAL_THRESHOLD) q),
      alerts @ map (poor_alert now) (filter (\<lambda>(rm, s, v). avg_to_dbm v < POOR_SIGNAL_THRESHOLD) q))"
  by (induction now q found alerts rule: poor_signal_loop.induct)
     (simp_all add: Let_def add_alert_def poor_alert_def)

lemma disappearance_loop_eq:
  "disappearance_loop now q found alerts =
     (found @ map (disappeared_alert now) q, alerts @ map (disappeared_alert now) q)"
  by (induction now q found alerts rule: disappearance_loop.induct)
     (simp_all add: Let_def add_alert_def disappeared_alert_def NETWORK_DISAPPEARANCE_MINUTES_def)

lemma group_filter:
  "filter (\<lambda>r. room r = rm \<and> ssid r = s) (filter (\<lambda>r. scan_timestamp r \<ge> c) rows) =
   recent_rows c rm s rows"
  unfolding recent_rows_def filter_filter by (rule filter_cong) auto

lemma set_map_filter: "set (List.map_filter f xs) = {y. \<exists>x \<in> set xs. f x = Some y}"
  by (induction xs) (auto simp: List.map_filter_simps split: option.splits)

lemma group_present:
  "(rm, s) \<in> set (map (\<lambda>r. (room r, ssid r)) (filter (\<lambda>r. scan_timestamp r \<ge> c) rows))
      \<longleftrightarrow> recent_rows c rm s rows \<noteq> []"
  by (auto simp: recent_rows_def filter_empty_conv)

lemma poor_signal_query_mem:
  "(rm, s, v) \<in> set (poor_signal_query c rows) \<longleftrightarrow> recent_avg c rm s rows = Some v \<and> 0 < v"
proof -
  have q: "set (poor_signal_query c rows) =
      {y. \<exists>k \<in> set (map (\<lambda>r. (room r, ssid r)) (filter (\<lambda>r. scan_timestamp r \<ge> c) rows)).
            (case k of (rm, s) \<Rightarrow>
               case recent_avg c rm s rows of None \<Rightarrow> None
               | Some a \<Rightarrow> if a > 0 then Some (rm, s, a) else None) = Some y}"
    unfolding poor_signal_query_def Let_def set_map_filter set_remdups group_filter recent_avg_def
    by (rule refl)
  show ?thesis
  proof
    assume "(rm, s, v) \<in> set (poor_signal_query c rows)"
    then show "recent_avg c rm s rows = Some v \<and> 0 < v"
      unfolding q by (auto split: option.splits if_splits)
  next
    assume a: "recent_avg c rm s rows = Some v \<and> 0 < v"
    then have "recent_rows c rm s rows \<noteq> []"
      by (auto simp: recent_avg_def sql_avg_def split: if_splits)
    then have "(rm, s) \<in> set (map (\<lambda>r. (room r, ssid r)) (filter (\<lambda>r. scan_timestamp r \<ge> c) rows))"
      using group_present [of rm s c rows] by blast
    with a show "(rm, s, v) \<in> set (poor_signal_query c rows)"
      unfolding q by force
  qed
qed

lemma distinct_map_filter:
  assumes "distinct xs" and "\<And>x y. f x = Some y \<Longrightarrow> h y = x"
  shows "distinct (map h (List.map_filter f xs))"
  using assms(1)
proof (induction xs)
  case Nil
  then show ?case by (simp add: List.map_filter_simps)
next
  case (Cons x xs)
  show ?case
  proof (cases "f x")
    case None
    with Cons show ?thesis by (simp add: List.map_filter_simps)
  next
    case (Some y)
    have "h y \<notin> h ` set (List.map_filter f xs)"
    proof
      assume "h y \<in> h ` set (List.map_filter f xs)"
      then obtain z x' where "x' \<in> set xs" "f x' = Some z" "h z = h y"
        by (auto simp: set_map_filter)
      then have "x' = x" using assms(2) Some by metis
      with \<open>x' \<in> set xs\<close> Cons.prems show False by simp
    qed
    with Cons Some show ?thesis by (simp add: List.map_filter_simps)
  qed
qed

lemma poor_signal_query_distinct:
  "distinct (map (\<lambda>(rm, s, v). (rm, s)) (poor_signal_query c rows))"
  unfolding poor_signal_query_def Let_def
  by (rule distinct_map_filter) (auto split: option.splits if_splits)

lemma disappearance_query_mem:
  "(rm, s) \<in> set (disappearance_query co cr rows) \<longleftrightarrow>
     previous_rows co cr rm s rows \<noteq> [] \<and> recent_rows cr rm s rows = []"
  unfolding disappearance_query_def Let_def previous_rows_def recent_rows_def
    filter_empty_conv set_remdups
  by (auto simp: image_iff) metis+

lemma disappearance_query_distinct: "distinct (disappearance_query co cr rows)"
  by (simp add: disappearance_query_def Let_def)

lemma check_poor_signal_eq:
  "check_poor_signal now (Inr rows) alerts =
     (Inr (map (poor_alert now)
             (filter (\<lambda>(rm, s, v). avg_to_dbm v < POOR_SIGNAL_THRESHOLD)
                (poor_signal_query (now - hours_delta 1) rows))),
      alerts @ map (poor_alert now)
             (filter (\<lambda>(rm, s, v). avg_to_dbm v < POOR_SIGNAL_THRESHOLD)
                (poor_signal_query (now - hours_delta 1) rows)))"
  by (simp add: check_poor_signal_def Let_def poor_signal_loop_eq)

lemma check_network_disappearance_eq:
  "check_network_disappearance now (Inr rows) alerts =
     (Inr (map (disappeared_alert now)
             (disappearance_query (now - hours_delta 2) (now - minutes_delta 30) rows)),
      alerts @ map (disappeared_alert now)
             (disappearance_query (now - hours_delta 2) (now - minutes_delta 30) rows))"
  by (simp add: check_network_disappearance_def Let_def disappearance_loop_eq
      NETWORK_DISAPPEARANCE_MINUTES_def)

lemma alert_names_poor [simp]:
  "alert_names (poor_alert now (rm', s', v)) rm s \<longleftrightarrow> rm' = rm \<and> s' = s"
  by (simp add: alert_names_def poor_alert_def)

lemma alert_names_disappeared [simp]:
  "alert_names (disappeared_alert now (rm', s')) rm s \<longleftrightarrow> rm' = rm \<and> s' = s"
  by (simp add: alert_names_def disappeared_alert_def)

lemma severity_poor [simp]: "severity (poor_alert now g) = ''info''"
  by (cases g) (simp add: poor_alert_def)

lemma length_filter_eq_distinct:
  "distinct xs \<Longrightarrow> length (filter (\<lambda>k. k = x) xs) = (if x \<in> set xs then 1 else 0)"
  by (induction xs) auto



lemma check_poor_signal_Inl: "check_poor_signal now (Inl e) alerts = (Inl e, alerts)"
  by (simp add: check_poor_signal_def)

lemma check_network_disappearance_Inl:
  "check_network_disappearance now (Inl e) alerts = (Inl e, alerts)"
  by (simp add: check_network_disappearance_def)

lemma check_all_eq:
  "check_all now (Inr rows1) (Inr rows2) alerts =
     (Inr (map (poor_alert now)
             (filter (\<lambda>(rm, s, v). avg_to_dbm v < POOR_SIGNAL_THRESHOLD)
                (poor_signal_query (now - hours_delta 1) rows1)) @
           map (disappeared_alert now)
             (disappearance_query (now - hours_delta 2) (now - minutes_delta 30) rows2)),
      alerts @
           map (poor_alert now)
             (filter (\<lambda>(rm, s, v). avg_to_dbm v < POOR_SIGNAL_THRESHOLD)
                (poor_signal_query (now - hours_delta 1) rows1)) @
           map (disappeared_alert now)
             (disappearance_query (now - hours_delta 2) (now - minutes_delta 30) rows2))"
  by (simp add: check_all_def check_poor_signal_eq check_network_disappearance_eq)

lemma floor_log2_eq:
  assumes "2 ^ n \<le> \<bar>x\<bar>" and "\<bar>x\<bar> < 2 ^ Suc n"
  shows "\<lfloor>log 2 \<bar>x\<bar>\<rfloor> = int n"
proof -
  have "(0::real) < 2 ^ n" by simp
  with assms(1) have pos: "0 < \<bar>x\<bar>" by linarith
  have a: "real n \<le> log 2 \<bar>x\<bar>"
    using assms(1) pos by (simp add: le_log_iff powr_realpow)
  have b: "log 2 \<bar>x\<bar> < real n + 1"
    using assms(2) pos by (simp add: log_less_iff powr_realpow powr_add)
  show ?thesis using a b by linarith
qed

lemma fl_eval:
  assumes "2 ^ n \<le> \<bar>x\<bar>" and "\<bar>x\<bar> < 2 ^ Suc n" and "n \<le> 52"
  shows "fl x = of_int (round_half_even (x * 2 ^ (52 - n))) / 2 ^ (52 - n)"
proof -
  have nz: "x \<noteq> 0"
  proof
    assume "x = 0"
    with assms(1) have "(2::real) ^ n \<le> 0" by simp
    moreover have "(0::real) < 2 ^ n" by simp
    ultimately show False by linarith
  qed
  have e: "\<lfloor>log 2 \<bar>x\<bar>\<rfloor> - 52 = - int (52 - n)"
    using floor_log2_eq [OF assms(1,2)] assms(3) by simp
  have p: "2 powr of_int (- int (52 - n)) = 1 / (2::real) ^ (52 - n)"
    by (simp add: powr_minus powr_realpow inverse_eq_divide)
  show ?thesis
    using nz by (simp add: fl_def Let_def e p del: of_int_minus)
qed

lemma fl_zero: "fl 0 = 0"
  by (simp add: fl_def)

lemma avg_double_None_iff: "avg_double xs = None \<longleftrightarrow> xs = []"
  by (simp add: avg_double_def)

lemma check_signal_degradation_eq:
  "check_signal_degradation now (Inr rows) rm s alerts =
     (case (recent_avg_double (now - hours_delta 1) rm s rows,
            previous_avg_double (now - hours_delta 2) (now - hours_delta 1) rm s rows) of
        (Some r, Some p) \<Rightarrow>
          if r \<noteq> 0 \<and> p \<noteq> 0 \<and> fl (dbm_double r - dbm_double p) < - 10
          then (Inr (Some (degradation_alert now rm s r p)), alerts @ [degradation_alert now rm s r p])
          else (Inr None, alerts)
      | _ \<Rightarrow> (Inr None, alerts))"
  by (simp add: check_signal_degradation_def Let_def truthy_def add_alert_def
      degradation_alert_def SIGNAL_DEGRADATION_THRESHOLD_def split: option.splits)

text \<open>
  An example of the rounding of a reported field: the average \<open>30.7\<close> converts to the
  double just below \<open>-84.65\<close>, which rounds to \<open>-84.7\<close>.
\<close>

lemma py_round1_example:
  "dbm_double (fl (307 / 10)) = - 2978357097319629 / 35184372088832
   \<and> round1 (- 2978357097319629 / 35184372088832) = - 847 / 10"
proof -
  have a: "fl (307 / 10) = 8641281785017139 / 281474976710656"
    by (subst fl_eval [where n = 4]) (simp_all add: round_half_even_def Let_def)
  have b: "fl (8641281785017139 / 281474976710656 / 2) = 8641281785017139 / 562949953421312"
    by (subst fl_eval [where n = 3]) (simp_all add: round_half_even_def Let_def)
  have c: "fl (8641281785017139 / 562949953421312 - 100) = - 2978357097319629 / 35184372088832"
    by (subst fl_eval [where n = 6]) (simp_all add: round_half_even_def Let_def)
  have d: "dbm_double (fl (307 / 10)) = - 2978357097319629 / 35184372088832"
    unfolding dbm_double_def a b c ..
  have e: "round1 (- 2978357097319629 / 35184372088832) = - 847 / 10"
    by (simp add: round1_def Let_def)
  from d e show ?thesis by blast
qed

subsection \<open>The checks with failing writes\<close>

lemma add_alert_saving_ok:
  "add_alert_saving (\<lambda>_. True) now atype msg sev d alerts =
     (Inr (fst (add_alert now atype msg sev d alerts)), snd (add_alert now atype msg sev d alerts))"
  by (simp add: add_alert_saving_def add_alert_def Let_def)

lemma poor_signal_loop_saving_ok:
  "poor_signal_loop_saving (\<lambda>_. True) now q found alerts =
     (Inr (fst (poor_signal_loop now q found alerts)), snd (poor_signal_loop now q found alerts))"
  by (induction now q found alerts rule: poor_signal_loop.induct)
     (simp_all add: Let_def add_alert_saving_def add_alert_def split: prod.splits)

lemma disappearance_loop_saving_ok:
  "disappearance_loop_saving (\<lambda>_. True) now q found alerts =
     (Inr (fst (disappearance_loop now q found alerts)), snd (disappearance_loop now q found alerts))"
  by (induction now q found alerts rule: disappearance_loop.induct)
     (simp_all add: Let_def add_alert_saving_def add_alert_def split: prod.splits)

lemma check_all_saving_ok:
  "check_all_saving (\<lambda>_. True) now db1 db2 alerts = check_all now db1 db2 alerts"
  by (cases db1; cases db2)
     (simp_all add: check_all_saving_def check_all_def check_poor_signal_saving_def
        check_poor_signal_def check_network_disappearance_saving_def
        check_network_disappearance_def poor_signal_loop_saving_ok disappearance_loop_saving_ok
        Let_def split: prod.splits)

lemma add_alert_saving_poor:
  "add_alert_saving saved now ''poor_signal'' (''Poor signal detected for '' @ s @ '' in '' @ rm)
     ''info'' [(''room'', JStr rm), (''ssid'', JStr s), (''signal'', JNum (round1 (avg_to_dbm v)))]
     alerts =
   (if saved (alerts @ [poor_alert now (rm, s, v)])
    then (Inr (poor_alert now (rm, s, v)), alerts @ [poor_alert now (rm, s, v)])
    else (Inl OSError, alerts @ [poor_alert now (rm, s, v)]))"
  by (simp add: add_alert_saving_def poor_alert_def Let_def)

lemma add_alert_saving_disappeared:
  "add_alert_saving saved now ''network_disappeared''
     (''Network '' @ s @ '' not seen in '' @ rm @ '' for 30 minutes'') ''warning''
     [(''room'', JStr rm), (''ssid'', JStr s),
      (''minutes_missing'', JInt NETWORK_DISAPPEARANCE_MINUTES)]
     alerts =
   (if saved (alerts @ [disappeared_alert now (rm, s)])
    then (Inr (disappeared_alert now (rm, s)), alerts @ [disappeared_alert now (rm, s)])
    else (Inl OSError, alerts @ [disappeared_alert now (rm, s)]))"
  by (simp add: add_alert_saving_def disappeared_alert_def Let_def
      NETWORK_DISAPPEARANCE_MINUTES_def)

lemma poor_signal_loop_saving_Cons:
  "poor_signal_loop_saving saved now ((rm, s, v) # rest) found alerts =
     (if avg_to_dbm v < POOR_SIGNAL_THRESHOLD then
        (if saved (alerts @ [poor_alert now (rm, s, v)])
         then poor_signal_loop_saving saved now rest (found @ [poor_alert now (rm, s, v)])
                (alerts @ [poor_alert now (rm, s, v)])
         else (Inl OSError, alerts @ [poor_alert now (rm, s, v)]))
      else poor_signal_loop_saving saved now rest found alerts)"
  unfolding poor_signal_loop_saving.simps Let_def add_alert_saving_poor by simp

lemma disappearance_loop_saving_Cons:
  "disappearance_loop_saving saved now ((rm, s) # rest) found alerts =
     (if saved (alerts @ [disappeared_alert now (rm, s)])
      then disappearance_loop_saving saved now rest (found @ [disappeared_alert now (rm, s)])
             (alerts @ [disappeared_alert now (rm, s)])
      else (Inl OSError, alerts @ [disappeared_alert now (rm, s)]))"
  unfolding disappearance_loop_saving.simps add_alert_saving_disappeared by simp

declare poor_signal_loop_saving.simps(2) [simp del]

declare disappearance_loop_saving.simps(2) [simp del]

lemma strict_prefix_snoc_left: "strict_prefix (xs @ [a]) ys \<Longrightarrow> strict_prefix xs ys"
  by (auto simp: strict_prefix_def prefix_def)

lemma poor_signal_loop_saving_Inr:
  "poor_signal_loop_saving saved now q found alerts = (Inr f, alerts') \<Longrightarrow>
   \<exists>new. f = found @ new \<and> alerts' = alerts @ new"
proof (induction q arbitrary: found alerts)
  case Nil
  then show ?case by simp
next
  case (Cons g rest)
  obtain rm s v where g: "g = (rm, s, v)" by (cases g)
  show ?case
  proof (cases "avg_to_dbm v < POOR_SIGNAL_THRESHOLD \<and> saved (alerts @ [poor_alert now (rm, s, v)])")
    case True
    with Cons.prems g
    have "poor_signal_loop_saving saved now rest (found @ [poor_alert now (rm, s, v)])
            (alerts @ [poor_alert now (rm, s, v)]) = (Inr f, alerts')"
      by (simp add: poor_signal_loop_saving_Cons)
    from Cons.IH [OF this] obtain new
      where "f = (found @ [poor_alert now (rm, s, v)]) @ new"
        and "alerts' = (alerts @ [poor_alert now (rm, s, v)]) @ new" by blast
    then have "f = found @ (poor_alert now (rm, s, v) # new)
        \<and> alerts' = alerts @ (poor_alert now (rm, s, v) # new)" by simp
    then show ?thesis by blast
  next
    case False
    with Cons.prems g
    have "poor_signal_loop_saving saved now rest found alerts = (Inr f, alerts')"
      by (simp add: poor_signal_loop_saving_Cons split: if_splits)
    from Cons.IH [OF this] show ?thesis .
  qed
qed

lemma poor_signal_loop_saving_Inl:
  "poor_signal_loop_saving saved now q found alerts = (Inl e, alerts') \<Longrightarrow>
   e = OSError \<and> \<not> saved alerts' \<and> strict_prefix alerts alerts'"
proof (induction q arbitrary: found alerts)
  case Nil
  then show ?case by simp
next
  case (Cons g rest)
  obtain rm s v where g: "g = (rm, s, v)" by (cases g)
  show ?case
  proof (cases "avg_to_dbm v < POOR_SIGNAL_THRESHOLD")
    case False
    with Cons.prems g
    have "poor_signal_loop_saving saved now rest found alerts = (Inl e, alerts')"
      by (simp add: poor_signal_loop_saving_Cons)
    from Cons.IH [OF this] show ?thesis .
  next
    case True
    show ?thesis
    proof (cases "saved (alerts @ [poor_alert now (rm, s, v)])")
      case False
      with True Cons.prems g show ?thesis
        by (auto simp: poor_signal_loop_saving_Cons strict_prefix_def)
    next
      case saved: True
      with True Cons.prems g
      have "poor_signal_loop_saving saved now rest (found @ [poor_alert now (rm, s, v)])
              (alerts @ [poor_alert now (rm, s, v)]) = (Inl e, alerts')"
        by (simp add: poor_signal_loop_saving_Cons)
      from Cons.IH [OF this] show ?thesis
        by (auto dest: strict_prefix_snoc_left)
    qed
  qed
qed

lemma disappearance_loop_saving_Inr:
  "disappearance_loop_saving saved now q found alerts = (Inr f, alerts') \<Longrightarrow>
   \<exists>new. f = found @ new \<and> alerts' = alerts @ new"
proof (induction q arbitrary: found alerts)
  case Nil
  then show ?case by simp
next
  case (Cons g rest)
  obtain rm s where g: "g = (rm, s)" by (cases g)
  from Cons.prems g
  have sv: "saved (alerts @ [disappeared_alert now (rm, s)])"
    by (simp add: disappearance_loop_saving_Cons split: if_splits)
  with Cons.prems g
  have "disappearance_loop_saving saved now rest (found @ [disappeared_alert now (rm, s)])
          (alerts @ [disappeared_alert now (rm, s)]) = (Inr f, alerts')"
    by (simp add: disappearance_loop_saving_Cons)
  from Cons.IH [OF this] obtain new
    where "f = (found @ [disappeared_alert now (rm, s)]) @ new"
      and "alerts' = (alerts @ [disappeared_alert now (rm, s)]) @ new" by blast
  then have "f = found @ (disappeared_alert now (rm, s) # new)
      \<and> alerts' = alerts @ (disappeared_alert now (rm, s) # new)" by simp
  then show ?case by blast
qed

lemma disappearance_loop_saving_Inl:
  "disappearance_loop_saving saved now q found alerts = (Inl e, alerts') \<Longrightarrow>
   e = OSError \<and> \<not> saved alerts' \<and> strict_prefix alerts alerts'"
proof (induction q arbitrary: found alerts)
  case Nil
  then show ?case by simp
next
  case (Cons g rest)
  obtain rm s where g: "g = (rm, s)" by (cases g)
  show ?case
  proof (cases "saved (alerts @ [disappeared_alert now (rm, s)])")
    case False
    with Cons.prems g show ?thesis
      by (auto simp: disappearance_loop_saving_Cons strict_prefix_def)
  next
    case True
    with Cons.prems g
    have "disappearance_loop_saving saved now rest (found @ [disappeared_alert now (rm, s)])
            (alerts @ [disappeared_alert now (rm, s)]) = (Inl e, alerts')"
      by (simp add: disappearance_loop_saving_Cons)
    from Cons.IH [OF this] show ?thesis
      by (auto dest: strict_prefix_snoc_left)
  qed
qed

lemma year_start_values:
  "year_start 1 = - 62135596800" "year_start 10 = - 61851600000"
  "year_start 100 = - 59011459200" "year_start 1000 = - 30610224000"
  "year_start 10000 = 253402300800"
  by (simp_all add: year_start_def days_before_year_def)

lemma get_recent_alerts_strftime_four_digit:
  assumes "year_start 1000 \<le> now - hours_delta hours"
    and "now - hours_delta hours < year_start 10000"
    and "\<forall>a \<in> set alerts. year_start 1000 \<le> timestamp a"
  shows "get_recent_alerts_strftime now hours alerts = Inr (get_recent_alerts now hours alerts)"
proof -
  have w: "year_width (now - hours_delta hours) = 4"
    using assms(1) by (simp add: year_width_def year_start_values)
  have wa: "year_width (timestamp a) = 4" if "a \<in> set alerts" for a
    using assms(3) that by (auto simp: year_width_def year_start_values)
  have "filter (\<lambda>a. strftime_ge (timestamp a) (now - hours_delta hours)) alerts =
        filter (\<lambda>a. now - hours_delta hours \<le> timestamp a) alerts"
    by (rule filter_cong) (simp_all add: strftime_ge_def Let_def w wa)
  then show ?thesis
    using assms(1,2)
    by (simp add: get_recent_alerts_strftime_def get_recent_alerts_def Let_def year_start_values)
qed

section \<open>Ledger properties\<close>

text \<open>
  As long as the texts compared have four-digit years, \<^verbatim>\<open>get_recent_alerts\<close> is the
  comparison of instants: an alert appended at instant \<open>t\<close> is the last element of the
  answer read at \<open>now\<close> when the duration covers its age \<open>now - t\<close>, and is not returned
  when the duration is shorter; every alert already in the ledger is returned exactly
  when the duration covers its age, in the order of the ledger.
\<close>

theorem get_recent_alerts_round_trip:
  "get_recent_alerts now hours (snd (add_alert t atype msg sev d alerts)) =
     get_recent_alerts now hours alerts @
       (if now - t \<le> hours_delta hours then [fst (add_alert t atype msg sev d alerts)] else [])
   \<and> timestamp (fst (add_alert t atype msg sev d alerts)) = t
   \<and> (\<forall>a \<in> set alerts.
         a \<in> set (get_recent_alerts now hours alerts) \<longleftrightarrow> now - timestamp a \<le> hours_delta hours)
   \<and> subseq (get_recent_alerts now hours alerts) alerts"
  by (auto simp: get_recent_alerts_def add_alert_def Let_def)

theorem get_recent_alerts_round_trip_witness:
  "get_recent_alerts 7200 1 (snd (add_alert 3600 ''poor_signal'' ''m'' ''info'' [] [])) =
     [\<lparr>timestamp = 3600, alert_type = ''poor_signal'', message = ''m'', severity = ''info'',
       data = []\<rparr>]
   \<and> get_recent_alerts 7201 1 (snd (add_alert 3600 ''poor_signal'' ''m'' ''info'' [] [])) = []"
  using get_recent_alerts_round_trip [of 7200 1 3600 "''poor_signal''" "''m''" "''info''" "[]" "[]"]
    get_recent_alerts_round_trip [of 7201 1 3600 "''poor_signal''" "''m''" "''info''" "[]" "[]"]
  by (simp add: get_recent_alerts_def add_alert_def hours_delta_def Let_def)

text \<open>
  C8. The round trip holds for every duration only as long as the cutoff keeps a
  four-digit year. With the clock at 2026-11-04 00:00:00 and one alert appended a minute
  before, a duration of 9636000 hours covers the age of the alert, but the cutoff lies in
  the year 927, its text starts with \<^verbatim>\<open>9\<close>, the text of the alert with \<^verbatim>\<open>2\<close>, and the
  alert is not returned. A duration of 26280000 hours raises \<^verbatim>\<open>OverflowError\<close>. With 24
  hours the alert is returned.
\<close>

theorem get_recent_alerts_strftime_long_duration:
  "1793750400 - timestamp \<lparr>timestamp = 1793750340, alert_type = ''poor_signal'', message = ''Poor signal detected for Guest in Kitchen'', severity = ''info'', data = []\<rparr> \<le> hours_delta 9636000
   \<and> (snd (add_alert 1793750340 ''poor_signal'' ''Poor signal detected for Guest in Kitchen'' ''info'' [] [])) = [\<lparr>timestamp = 1793750340, alert_type = ''poor_signal'', message = ''Poor signal detected for Guest in Kitchen'', severity = ''info'', data = []\<rparr>]
   \<and> year_of (1793750400 - hours_delta 9636000) = 927
   \<and> get_recent_alerts_strftime 1793750400 9636000 (snd (add_alert 1793750340 ''poor_signal'' ''Poor signal detected for Guest in Kitchen'' ''info'' [] [])) = Inr []
   \<and> get_recent_alerts_strftime 1793750400 26280000 (snd (add_alert 1793750340 ''poor_signal'' ''Poor signal detected for Guest in Kitchen'' ''info'' [] [])) = Inl OverflowError
   \<and> get_recent_alerts_strftime 1793750400 24 (snd (add_alert 1793750340 ''poor_signal'' ''Poor signal detected for Guest in Kitchen'' ''info'' [] [])) = Inr [\<lparr>timestamp = 1793750340, alert_type = ''poor_signal'', message = ''Poor signal detected for Guest in Kitchen'', severity = ''info'', data = []\<rparr>]"
  by (simp add: get_recent_alerts_strftime_def add_alert_def strftime_ge_def year_width_def
      year_of_def year_start_values hours_delta_def Let_def)



section \<open>Poor-signal rule\<close>

text \<open>
  C2 (as amended). For a location and network whose rows stamped at or after \<open>now - 1h\<close>
  have a raw average \<open>v > 0\<close>, \<^verbatim>\<open>check_poor_signal\<close> emits an alert naming that pair exactly
  when \<open>v / 2 - 100 < -80\<close>; the alert is the \<^verbatim>\<open>info\<close> alert built from \<open>v\<close>, and an average
  of exactly \<open>-80\<close> dBm emits none.
\<close>

theorem check_poor_signal_threshold:
  assumes "recent_avg (now - hours_delta 1) rm s rows = Some v" and "0 < v"
  shows "\<exists>found. check_poor_signal now (Inr rows) alerts = (Inr found, alerts @ found)
     \<and> ((\<exists>a \<in> set found. alert_names a rm s) \<longleftrightarrow> avg_to_dbm v < - 80)
     \<and> (\<forall>a \<in> set found. alert_names a rm s \<longrightarrow> a = poor_alert now (rm, s, v) \<and> severity a = ''info'')
     \<and> (avg_to_dbm v = - 80 \<longrightarrow> \<not> (\<exists>a \<in> set found. alert_names a rm s))"
proof -
  let ?q = "poor_signal_query (now - hours_delta 1) rows"
  let ?found = "map (poor_alert now) (filter (\<lambda>(rm, s, v). avg_to_dbm v < POOR_SIGNAL_THRESHOLD) ?q)"
  have mem: "(rm, s, v') \<in> set ?q \<longleftrightarrow> v' = v" for v'
    using assms by (auto simp: poor_signal_query_mem)
  have iff: "(\<exists>a \<in> set ?found. alert_names a rm s) \<longleftrightarrow> avg_to_dbm v < - 80"
    using mem by (auto simp: POOR_SIGNAL_THRESHOLD_def)
  have uniq: "\<forall>a \<in> set ?found. alert_names a rm s \<longrightarrow> a = poor_alert now (rm, s, v) \<and> severity a = ''info''"
    using mem by auto
  show ?thesis
    using iff uniq check_poor_signal_eq [of now rows alerts] by (intro exI [of _ ?found]) simp
qed

theorem check_poor_signal_threshold_witness:
  "recent_avg (7200 - hours_delta 1) ''Kitchen'' ''HomeNet''
     [\<lparr>scan_timestamp = 5000, room = ''Kitchen'', ssid = ''HomeNet'', signal = 30\<rparr>] = Some 30
   \<and> (\<exists>found. check_poor_signal 7200
         (Inr [\<lparr>scan_timestamp = 5000, room = ''Kitchen'', ssid = ''HomeNet'', signal = 30\<rparr>]) []
           = (Inr found, found)
        \<and> (\<exists>a \<in> set found. alert_names a ''Kitchen'' ''HomeNet''))"
proof -
  have h: "recent_avg (7200 - hours_delta 1) ''Kitchen'' ''HomeNet''
     [\<lparr>scan_timestamp = 5000, room = ''Kitchen'', ssid = ''HomeNet'', signal = 30\<rparr>] = Some 30"
    by (simp add: recent_avg_def recent_rows_def sql_avg_def hours_delta_def)
  have d: "avg_to_dbm 30 < - 80"
    by (simp add: avg_to_dbm_def)
  show ?thesis
    using h d check_poor_signal_threshold [where alerts = "[]", OF h] by auto
qed

text \<open>
  Without the condition on the raw average the statement fails: one row of \<open>-90\<close>, a
  value already in dBm, gives a group with a sample in the last hour whose mean is below
  \<open>-80\<close> dBm, whether the mean is taken per row (\<open>-90\<close>) or converted from the average
  (\<open>-145\<close>), and no alert is emitted.
\<close>

theorem check_poor_signal_claim_counterexample:
  "recent_rows (7200 - hours_delta 1) ''Kitchen'' ''HomeNet''
     [\<lparr>scan_timestamp = 5000, room = ''Kitchen'', ssid = ''HomeNet'', signal = - 90\<rparr>] \<noteq> []
   \<and> spec_mean_dbm (map signal (recent_rows (7200 - hours_delta 1) ''Kitchen'' ''HomeNet''
        [\<lparr>scan_timestamp = 5000, room = ''Kitchen'', ssid = ''HomeNet'', signal = - 90\<rparr>]))
       = Some (- 90)
   \<and> map_option avg_to_dbm (recent_avg (7200 - hours_delta 1) ''Kitchen'' ''HomeNet''
        [\<lparr>scan_timestamp = 5000, room = ''Kitchen'', ssid = ''HomeNet'', signal = - 90\<rparr>])
       = Some (- 145)
   \<and> (- 90 :: real) < - 80 \<and> (- 145 :: real) < - 80
   \<and> check_poor_signal 7200
        (Inr [\<lparr>scan_timestamp = 5000, room = ''Kitchen'', ssid = ''HomeNet'', signal = - 90\<rparr>]) []
       = (Inr [], [])"
  by (simp add: recent_rows_def recent_avg_def spec_mean_dbm_def signal_dbm_def sql_avg_def
      avg_to_dbm_def hours_delta_def check_poor_signal_def poor_signal_query_def Let_def
      List.map_filter_simps)

text \<open>
  C10. A location and network whose rows stamped at or after \<open>now - 1h\<close> average to a raw
  value \<open>v \<le> 0\<close> gets no alert from \<^verbatim>\<open>check_poor_signal\<close>, whatever its dBm value; every
  alert the check emits belongs to a group whose raw average is strictly positive.
\<close>

theorem check_poor_signal_only_positive:
  assumes "recent_avg (now - hours_delta 1) rm s rows = Some v" and "v \<le> 0"
  shows "\<exists>found. check_poor_signal now (Inr rows) alerts = (Inr found, alerts @ found)
     \<and> \<not> (\<exists>a \<in> set found. alert_names a rm s)
     \<and> (\<forall>a \<in> set found. \<exists>rm' s' v'. recent_avg (now - hours_delta 1) rm' s' rows = Some v'
            \<and> 0 < v' \<and> a = poor_alert now (rm', s', v'))"
proof -
  let ?q = "poor_signal_query (now - hours_delta 1) rows"
  let ?found = "map (poor_alert now) (filter (\<lambda>(rm, s, v). avg_to_dbm v < POOR_SIGNAL_THRESHOLD) ?q)"
  have none: "\<not> (\<exists>a \<in> set ?found. alert_names a rm s)"
    using assms by (auto simp: poor_signal_query_mem)
  have pos: "\<forall>a \<in> set ?found. \<exists>rm' s' v'. recent_avg (now - hours_delta 1) rm' s' rows = Some v'
            \<and> 0 < v' \<and> a = poor_alert now (rm', s', v')"
    by (auto simp: poor_signal_query_mem)
  show ?thesis
    using none pos check_poor_signal_eq [of now rows alerts] by (intro exI [of _ ?found]) simp
qed

theorem check_poor_signal_only_positive_witness:
  "recent_avg (7200 - hours_delta 1) ''Kitchen'' ''HomeNet''
     [\<lparr>scan_timestamp = 5000, room = ''Kitchen'', ssid = ''HomeNet'', signal = - 90\<rparr>] = Some (- 90)
   \<and> (\<exists>found. check_poor_signal 7200
         (Inr [\<lparr>scan_timestamp = 5000, room = ''Kitchen'', ssid = ''HomeNet'', signal = - 90\<rparr>]) []
           = (Inr found, found)
        \<and> \<not> (\<exists>a \<in> set found. alert_names a ''Kitchen'' ''HomeNet''))"
proof -
  have h: "recent_avg (7200 - hours_delta 1) ''Kitchen'' ''HomeNet''
     [\<lparr>scan_timestamp = 5000, room = ''Kitchen'', ssid = ''HomeNet'', signal = - 90\<rparr>] = Some (- 90)"
    by (simp add: recent_avg_def recent_rows_def sql_avg_def hours_delta_def)
  show ?thesis
    using h check_poor_signal_only_positive [where alerts = "[]", OF h] by auto
qed

section \<open>Disappearance rule\<close>

text \<open>
  C5 (as amended). \<^verbatim>\<open>check_network_disappearance\<close> emits exactly one alert for every
  location and network that has a row in \<open>[now - 2h, now - 30min)\<close> and no row stamped at or
  after \<open>now - 30min\<close>, and none for any other pair; every alert is a \<^verbatim>\<open>warning\<close> with
  \<^verbatim>\<open>minutes_missing = 30\<close>.
\<close>

theorem check_network_disappearance_flags:
  "\<exists>found. check_network_disappearance now (Inr rows) alerts = (Inr found, alerts @ found)
    \<and> (\<forall>rm s. length (filter (\<lambda>a. alert_names a rm s) found) =
          (if previous_rows (now - hours_delta 2) (now - minutes_delta 30) rm s rows \<noteq> []
              \<and> recent_rows (now - minutes_delta 30) rm s rows = [] then 1 else 0))
    \<and> (\<forall>a \<in> set found. severity a = ''warning'' \<and> alert_type a = ''network_disappeared''
          \<and> map_of (data a) ''minutes_missing'' = Some (JInt 30))"
proof -
  let ?q = "disappearance_query (now - hours_delta 2) (now - minutes_delta 30) rows"
  let ?found = "map (disappeared_alert now) ?q"
  have cnt: "length (filter (\<lambda>a. alert_names a rm s) ?found) =
          (if previous_rows (now - hours_delta 2) (now - minutes_delta 30) rm s rows \<noteq> []
              \<and> recent_rows (now - minutes_delta 30) rm s rows = [] then 1 else 0)" for rm s
  proof -
    have "filter (\<lambda>a. alert_names a rm s) ?found = map (disappeared_alert now) (filter (\<lambda>k. k = (rm, s)) ?q)"
      by (auto simp: filter_map comp_def intro!: arg_cong [where f = "map (disappeared_alert now)"] filter_cong)
    then show ?thesis
      using length_filter_eq_distinct [OF disappearance_query_distinct, of "(rm, s)" "now - hours_delta 2" "now - minutes_delta 30" rows]
        disappearance_query_mem [of rm s "now - hours_delta 2" "now - minutes_delta 30" rows]
      by simp
  qed
  have shape: "\<forall>a \<in> set ?found. severity a = ''warning'' \<and> alert_type a = ''network_disappeared''
          \<and> map_of (data a) ''minutes_missing'' = Some (JInt 30)"
    by (auto simp: disappeared_alert_def)
  show ?thesis
    using cnt shape check_network_disappearance_eq [of now rows alerts]
    by (intro exI [of _ ?found]) simp
qed

theorem check_network_disappearance_flags_witness:
  "\<exists>found. check_network_disappearance 7200
       (Inr [\<lparr>scan_timestamp = 1800, room = ''Kitchen'', ssid = ''HomeNet'', signal = 50\<rparr>,
             \<lparr>scan_timestamp = 2400, room = ''Kitchen'', ssid = ''HomeNet'', signal = 48\<rparr>,
             \<lparr>scan_timestamp = 2400, room = ''Kitchen'', ssid = ''Guest'', signal = 60\<rparr>,
             \<lparr>scan_timestamp = 7000, room = ''Kitchen'', ssid = ''Guest'', signal = 61\<rparr>]) []
       = (Inr found, found)
     \<and> length (filter (\<lambda>a. alert_names a ''Kitchen'' ''HomeNet'') found) = 1
     \<and> length (filter (\<lambda>a. alert_names a ''Kitchen'' ''Guest'') found) = 0
     \<and> length (filter (\<lambda>a. alert_names a ''Attic'' ''HomeNet'') found) = 0"
proof -
  obtain found where f: "check_network_disappearance 7200
       (Inr [\<lparr>scan_timestamp = 1800, room = ''Kitchen'', ssid = ''HomeNet'', signal = 50\<rparr>,
             \<lparr>scan_timestamp = 2400, room = ''Kitchen'', ssid = ''HomeNet'', signal = 48\<rparr>,
             \<lparr>scan_timestamp = 2400, room = ''Kitchen'', ssid = ''Guest'', signal = 60\<rparr>,
             \<lparr>scan_timestamp = 7000, room = ''Kitchen'', ssid = ''Guest'', signal = 61\<rparr>]) []
       = (Inr found, [] @ found)"
    and c: "\<And>rm s. length (filter (\<lambda>a. alert_names a rm s) found) =
          (if previous_rows (7200 - hours_delta 2) (7200 - minutes_delta 30) rm s
               [\<lparr>scan_timestamp = 1800, room = ''Kitchen'', ssid = ''HomeNet'', signal = 50\<rparr>,
                \<lparr>scan_timestamp = 2400, room = ''Kitchen'', ssid = ''HomeNet'', signal = 48\<rparr>,
                \<lparr>scan_timestamp = 2400, room = ''Kitchen'', ssid = ''Guest'', signal = 60\<rparr>,
                \<lparr>scan_timestamp = 7000, room = ''Kitchen'', ssid = ''Guest'', signal = 61\<rparr>] \<noteq> []
              \<and> recent_rows (7200 - minutes_delta 30) rm s
               [\<lparr>scan_timestamp = 1800, room = ''Kitchen'', ssid = ''HomeNet'', signal = 50\<rparr>,
                \<lparr>scan_timestamp = 2400, room = ''Kitchen'', ssid = ''HomeNet'', signal = 48\<rparr>,
                \<lparr>scan_timestamp = 2400, room = ''Kitchen'', ssid = ''Guest'', signal = 60\<rparr>,
                \<lparr>scan_timestamp = 7000, room = ''Kitchen'', ssid = ''Guest'', signal = 61\<rparr>] = []
           then 1 else 0)"
    using check_network_disappearance_flags [of 7200
        "[\<lparr>scan_timestamp = 1800, room = ''Kitchen'', ssid = ''HomeNet'', signal = 50\<rparr>,
          \<lparr>scan_timestamp = 2400, room = ''Kitchen'', ssid = ''HomeNet'', signal = 48\<rparr>,
          \<lparr>scan_timestamp = 2400, room = ''Kitchen'', ssid = ''Guest'', signal = 60\<rparr>,
          \<lparr>scan_timestamp = 7000, room = ''Kitchen'', ssid = ''Guest'', signal = 61\<rparr>]" "[]"]
    by blast
  show ?thesis
    using f c [of "''Kitchen''" "''HomeNet''"] c [of "''Kitchen''" "''Guest''"]
      c [of "''Attic''" "''HomeNet''"]
    by (intro exI [of _ found])
       (simp add: previous_rows_def recent_rows_def hours_delta_def minutes_delta_def)
qed

text \<open>
  With the recent window closed at \<open>now\<close> the statement fails: a pair seen at \<open>now - 1h\<close>
  and again in a row stamped \<open>now + 1min\<close> has a row in the old window and none in
  \<open>[now - 30min, now)\<close>, and is not flagged, because the query's recent window has no
  upper end.
\<close>

theorem check_network_disappearance_claim_counterexample:
  "previous_rows (7200 - hours_delta 2) (7200 - minutes_delta 30) ''Kitchen'' ''HomeNet''
     [\<lparr>scan_timestamp = 3600, room = ''Kitchen'', ssid = ''HomeNet'', signal = 50\<rparr>,
      \<lparr>scan_timestamp = 7260, room = ''Kitchen'', ssid = ''HomeNet'', signal = 50\<rparr>] \<noteq> []
   \<and> previous_rows (7200 - minutes_delta 30) 7200 ''Kitchen'' ''HomeNet''
     [\<lparr>scan_timestamp = 3600, room = ''Kitchen'', ssid = ''HomeNet'', signal = 50\<rparr>,
      \<lparr>scan_timestamp = 7260, room = ''Kitchen'', ssid = ''HomeNet'', signal = 50\<rparr>] = []
   \<and> check_network_disappearance 7200
       (Inr [\<lparr>scan_timestamp = 3600, room = ''Kitchen'', ssid = ''HomeNet'', signal = 50\<rparr>,
             \<lparr>scan_timestamp = 7260, room = ''Kitchen'', ssid = ''HomeNet'', signal = 50\<rparr>]) []
       = (Inr [], [])"
  by (simp add: previous_rows_def hours_delta_def minutes_delta_def
      check_network_disappearance_def disappearance_query_def Let_def
      NETWORK_DISAPPEARANCE_MINUTES_def)

section \<open>Averaging and conversion\<close>




section \<open>Degradation rule\<close>

text \<open>
  C4 (as amended). For a location, a network and a clock reading \<open>now\<close>,
  \<^verbatim>\<open>check_signal_degradation\<close> takes the average \<open>r\<close> of the raw signals stamped at or after
  \<open>now - 1h\<close> and the average \<open>p\<close> of those in \<open>[now - 2h, now - 1h)\<close>, converts each by
  \<open>avg / 2.0 - 100.0\<close>, and emits an alert exactly when both averages exist, neither is
  zero, and the difference of the converted values, as computed in double precision, is
  below \<open>-10\<close>. The alert is a \<^verbatim>\<open>warning\<close> appended to the ledger, carrying the previous, the
  current and the difference value, each rounded to one decimal. A computed difference of
  exactly \<open>-10.0\<close> emits nothing. When no row is stamped at or after \<open>now\<close>, the recent rows
  are those of \<open>[now - 1h, now)\<close>.
\<close>

theorem check_signal_degradation_emits_iff:
  "((\<exists>a. fst (check_signal_degradation now (Inr rows) rm s alerts) = Inr (Some a)) \<longleftrightarrow>
      (\<exists>r p. recent_avg_double (now - hours_delta 1) rm s rows = Some r
           \<and> previous_avg_double (now - hours_delta 2) (now - hours_delta 1) rm s rows = Some p
           \<and> r \<noteq> 0 \<and> p \<noteq> 0 \<and> fl (dbm_double r - dbm_double p) < - 10))
   \<and> (\<forall>a. fst (check_signal_degradation now (Inr rows) rm s alerts) = Inr (Some a) \<longrightarrow>
        (\<exists>r p. recent_avg_double (now - hours_delta 1) rm s rows = Some r
           \<and> previous_avg_double (now - hours_delta 2) (now - hours_delta 1) rm s rows = Some p
           \<and> a = degradation_alert now rm s r p
           \<and> severity a = ''warning''
           \<and> map_of (data a) ''previous_signal'' = Some (JNum (py_round1 (dbm_double p)))
           \<and> map_of (data a) ''current_signal'' = Some (JNum (py_round1 (dbm_double r)))
           \<and> map_of (data a) ''degradation'' =
               Some (JNum (py_round1 (fl (dbm_double r - dbm_double p))))
           \<and> snd (check_signal_degradation now (Inr rows) rm s alerts) = alerts @ [a]))
   \<and> (\<forall>r p. recent_avg_double (now - hours_delta 1) rm s rows = Some r
           \<and> previous_avg_double (now - hours_delta 2) (now - hours_delta 1) rm s rows = Some p
           \<and> fl (dbm_double r - dbm_double p) = - 10 \<longrightarrow>
        check_signal_degradation now (Inr rows) rm s alerts = (Inr None, alerts))
   \<and> ((\<forall>x \<in> set rows. scan_timestamp x < now) \<longrightarrow>
        recent_rows (now - hours_delta 1) rm s rows =
        previous_rows (now - hours_delta 1) now rm s rows)"
proof -
  have w: "(\<forall>x \<in> set rows. scan_timestamp x < now) \<longrightarrow>
        recent_rows (now - hours_delta 1) rm s rows =
        previous_rows (now - hours_delta 1) now rm s rows"
    by (auto simp: recent_rows_def previous_rows_def intro: filter_cong)
  show ?thesis
    using w
    by (auto simp: check_signal_degradation_eq degradation_alert_def
        split: option.splits if_splits)
qed

text \<open>
  The averages \<open>60\<close> and \<open>10\<close> give an alert; \<open>60\<close> and \<open>40\<close> give a computed difference
  of exactly \<open>-10.0\<close> and none; the rows \<open>64, 65, 65\<close> and \<open>44, 45, 45\<close>, whose exact
  averages differ by \<open>20\<close>, give the computed difference \<open>-10.000000000000014\<close> and an alert.
\<close>

theorem check_signal_degradation_emits_iff_witness:
  "check_signal_degradation 7200
     (Inr [\<lparr>scan_timestamp = 1000, room = ''Kitchen'', ssid = ''HomeNet'', signal = 60\<rparr>,
      \<lparr>scan_timestamp = 5000, room = ''Kitchen'', ssid = ''HomeNet'', signal = 10\<rparr>]) ''Kitchen'' ''HomeNet'' []
   = (Inr (Some (degradation_alert 7200 ''Kitchen'' ''HomeNet'' 10 60)),
      [degradation_alert 7200 ''Kitchen'' ''HomeNet'' 10 60])
   \<and> check_signal_degradation 7200
     (Inr [\<lparr>scan_timestamp = 1000, room = ''Kitchen'', ssid = ''HomeNet'', signal = 60\<rparr>,
      \<lparr>scan_timestamp = 5000, room = ''Kitchen'', ssid = ''HomeNet'', signal = 40\<rparr>]) ''Kitchen'' ''HomeNet'' []
   = (Inr None, [])
   \<and> fl (dbm_double (6286274479871317 / 140737488355328) - dbm_double (4550512123488939 / 70368744177664)) = (- 703687441776641 / 70368744177664)
   \<and> check_signal_degradation 7200
     (Inr [\<lparr>scan_timestamp = 1000, room = ''Kitchen'', ssid = ''HomeNet'', signal = 64\<rparr>,
      \<lparr>scan_timestamp = 1100, room = ''Kitchen'', ssid = ''HomeNet'', signal = 65\<rparr>,
      \<lparr>scan_timestamp = 1200, room = ''Kitchen'', ssid = ''HomeNet'', signal = 65\<rparr>,
      \<lparr>scan_timestamp = 5000, room = ''Kitchen'', ssid = ''HomeNet'', signal = 44\<rparr>,
      \<lparr>scan_timestamp = 5100, room = ''Kitchen'', ssid = ''HomeNet'', signal = 45\<rparr>,
      \<lparr>scan_timestamp = 5200, room = ''Kitchen'', ssid = ''HomeNet'', signal = 45\<rparr>]) ''Kitchen'' ''HomeNet'' []
   = (Inr (Some (degradation_alert 7200 ''Kitchen'' ''HomeNet'' (6286274479871317 / 140737488355328) (4550512123488939 / 70368744177664))),
      [degradation_alert 7200 ''Kitchen'' ''HomeNet'' (6286274479871317 / 140737488355328) (4550512123488939 / 70368744177664)])
   \<and> recent_rows (7200 - hours_delta 1) ''Kitchen'' ''HomeNet''
     [\<lparr>scan_timestamp = 1000, room = ''Kitchen'', ssid = ''HomeNet'', signal = 60\<rparr>,
      \<lparr>scan_timestamp = 5000, room = ''Kitchen'', ssid = ''HomeNet'', signal = 10\<rparr>]
   = previous_rows (7200 - hours_delta 1) 7200 ''Kitchen'' ''HomeNet''
     [\<lparr>scan_timestamp = 1000, room = ''Kitchen'', ssid = ''HomeNet'', signal = 60\<rparr>,
      \<lparr>scan_timestamp = 5000, room = ''Kitchen'', ssid = ''HomeNet'', signal = 10\<rparr>]"
proof -
  have ars: "fl 10 = 10"
    by (subst fl_eval [where n = 3]) (simp_all add: round_half_even_def Let_def)
  have arn: "fl 1 = 1"
    by (subst fl_eval [where n = 0]) (simp_all add: round_half_even_def Let_def)
  have arq: "fl (10 / 1) = 10"
    by (subst fl_eval [where n = 3]) (simp_all add: round_half_even_def Let_def)
  have arsum: "real_of_int (sum_list ([10] :: int list)) = 10" by simp
  have arlen: "real (length ([10] :: int list)) = 1" by simp
  have aravg: "avg_double [10] = Some 10"
    unfolding avg_double_def arsum arlen ars arn arq by simp
  have aps: "fl 60 = 60"
    by (subst fl_eval [where n = 5]) (simp_all add: round_half_even_def Let_def)
  have apn: "fl 1 = 1"
    by (subst fl_eval [where n = 0]) (simp_all add: round_half_even_def Let_def)
  have apq: "fl (60 / 1) = 60"
    by (subst fl_eval [where n = 5]) (simp_all add: round_half_even_def Let_def)
  have apsum: "real_of_int (sum_list ([60] :: int list)) = 60" by simp
  have aplen: "real (length ([60] :: int list)) = 1" by simp
  have apavg: "avg_double [60] = Some 60"
    unfolding avg_double_def apsum aplen aps apn apq by simp
  have arsel: "map signal (recent_rows (7200 - hours_delta 1) ''Kitchen'' ''HomeNet''
     [\<lparr>scan_timestamp = 1000, room = ''Kitchen'', ssid = ''HomeNet'', signal = 60\<rparr>,
      \<lparr>scan_timestamp = 5000, room = ''Kitchen'', ssid = ''HomeNet'', signal = 10\<rparr>]) = [10]"
    by (simp add: recent_rows_def hours_delta_def)
  have apsel: "map signal (previous_rows (7200 - hours_delta 2) (7200 - hours_delta 1) ''Kitchen'' ''HomeNet''
     [\<lparr>scan_timestamp = 1000, room = ''Kitchen'', ssid = ''HomeNet'', signal = 60\<rparr>,
      \<lparr>scan_timestamp = 5000, room = ''Kitchen'', ssid = ''HomeNet'', signal = 10\<rparr>]) = [60]"
    by (simp add: previous_rows_def hours_delta_def)
  have ara: "recent_avg_double (7200 - hours_delta 1) ''Kitchen'' ''HomeNet''
     [\<lparr>scan_timestamp = 1000, room = ''Kitchen'', ssid = ''HomeNet'', signal = 60\<rparr>,
      \<lparr>scan_timestamp = 5000, room = ''Kitchen'', ssid = ''HomeNet'', signal = 10\<rparr>] = Some 10"
    unfolding recent_avg_double_def arsel aravg ..
  have apa: "previous_avg_double (7200 - hours_delta 2) (7200 - hours_delta 1) ''Kitchen'' ''HomeNet''
     [\<lparr>scan_timestamp = 1000, room = ''Kitchen'', ssid = ''HomeNet'', signal = 60\<rparr>,
      \<lparr>scan_timestamp = 5000, room = ''Kitchen'', ssid = ''HomeNet'', signal = 10\<rparr>] = Some 60"
    unfolding previous_avg_double_def apsel apavg ..
  have arh: "fl (10 / 2) = 5"
    by (subst fl_eval [where n = 2]) (simp_all add: round_half_even_def Let_def)
  have ard: "fl (5 - 100) = (- 95)"
    by (subst fl_eval [where n = 6]) (simp_all add: round_half_even_def Let_def)
  have ardbm: "dbm_double 10 = (- 95)"
    unfolding dbm_double_def arh ard ..
  have aph: "fl (60 / 2) = 30"
    by (subst fl_eval [where n = 4]) (simp_all add: round_half_even_def Let_def)
  have apd: "fl (30 - 100) = (- 70)"
    by (subst fl_eval [where n = 6]) (simp_all add: round_half_even_def Let_def)
  have apdbm: "dbm_double 60 = (- 70)"
    unfolding dbm_double_def aph apd ..
  have ag: "fl ((- 95) - (- 70)) = (- 25)"
    by (subst fl_eval [where n = 4]) (simp_all add: round_half_even_def Let_def)
  have adeg: "fl (dbm_double 10 - dbm_double 60) = (- 25)"
    unfolding ardbm apdbm ag ..
  have brs: "fl 40 = 40"
    by (subst fl_eval [where n = 5]) (simp_all add: round_half_even_def Let_def)
  have brn: "fl 1 = 1"
    by (subst fl_eval [where n = 0]) (simp_all add: round_half_even_def Let_def)
  have brq: "fl (40 / 1) = 40"
    by (subst fl_eval [where n = 5]) (simp_all add: round_half_even_def Let_def)
  have brsum: "real_of_int (sum_list ([40] :: int list)) = 40" by simp
  have brlen: "real (length ([40] :: int list)) = 1" by simp
  have bravg: "avg_double [40] = Some 40"
    unfolding avg_double_def brsum brlen brs brn brq by simp
  have bps: "fl 60 = 60"
    by (subst fl_eval [where n = 5]) (simp_all add: round_half_even_def Let_def)
  have bpn: "fl 1 = 1"
    by (subst fl_eval [where n = 0]) (simp_all add: round_half_even_def Let_def)
  have bpq: "fl (60 / 1) = 60"
    by (subst fl_eval [where n = 5]) (simp_all add: round_half_even_def Let_def)
  have bpsum: "real_of_int (sum_list ([60] :: int list)) = 60" by simp
  have bplen: "real (length ([60] :: int list)) = 1" by simp
  have bpavg: "avg_double [60] = Some 60"
    unfolding avg_double_def bpsum bplen bps bpn bpq by simp
  have brsel: "map signal (recent_rows (7200 - hours_delta 1) ''Kitchen'' ''HomeNet''
     [\<lparr>scan_timestamp = 1000, room = ''Kitchen'', ssid = ''HomeNet'', signal = 60\<rparr>,
      \<lparr>scan_timestamp = 5000, room = ''Kitchen'', ssid = ''HomeNet'', signal = 40\<rparr>]) = [40]"
    by (simp add: recent_rows_def hours_delta_def)
  have bpsel: "map signal (previous_rows (7200 - hours_delta 2) (7200 - hours_delta 1) ''Kitchen'' ''HomeNet''
     [\<lparr>scan_timestamp = 1000, room = ''Kitchen'', ssid = ''HomeNet'', signal = 60\<rparr>,
      \<lparr>scan_timestamp = 5000, room = ''Kitchen'', ssid = ''HomeNet'', signal = 40\<rparr>]) = [60]"
    by (simp add: previous_rows_def hours_delta_def)
  have bra: "recent_avg_double (7200 - hours_delta 1) ''Kitchen'' ''HomeNet''
     [\<lparr>scan_timestamp = 1000, room = ''Kitchen'', ssid = ''HomeNet'', signal = 60\<rparr>,
      \<lparr>scan_timestamp = 5000, room = ''Kitchen'', ssid = ''HomeNet'', signal = 40\<rparr>] = Some 40"
    unfolding recent_avg_double_def brsel bravg ..
  have bpa: "previous_avg_double (7200 - hours_delta 2) (7200 - hours_delta 1) ''Kitchen'' ''HomeNet''
     [\<lparr>scan_timestamp = 1000, room = ''Kitchen'', ssid = ''HomeNet'', signal = 60\<rparr>,
      \<lparr>scan_timestamp = 5000, room = ''Kitchen'', ssid = ''HomeNet'', signal = 40\<rparr>] = Some 60"
    unfolding previous_avg_double_def bpsel bpavg ..
  have brh: "fl (40 / 2) = 20"
    by (subst fl_eval [where n = 4]) (simp_all add: round_half_even_def Let_def)
  have brd: "fl (20 - 100) = (- 80)"
    by (subst fl_eval [where n = 6]) (simp_all add: round_half_even_def Let_def)
  have brdbm: "dbm_double 40 = (- 80)"
    unfolding dbm_double_def brh brd ..
  have bph: "fl (60 / 2) = 30"
    by (subst fl_eval [where n = 4]) (simp_all add: round_half_even_def Let_def)
  have bpd: "fl (30 - 100) = (- 70)"
    by (subst fl_eval [where n = 6]) (simp_all add: round_half_even_def Let_def)
  have bpdbm: "dbm_double 60 = (- 70)"
    unfolding dbm_double_def bph bpd ..
  have bg: "fl ((- 80) - (- 70)) = (- 10)"
    by (subst fl_eval [where n = 3]) (simp_all add: round_half_even_def Let_def)
  have bdeg: "fl (dbm_double 40 - dbm_double 60) = (- 10)"
    unfolding brdbm bpdbm bg ..
  have vrs: "fl 134 = 134"
    by (subst fl_eval [where n = 7]) (simp_all add: round_half_even_def Let_def)
  have vrn: "fl 3 = 3"
    by (subst fl_eval [where n = 1]) (simp_all add: round_half_even_def Let_def)
  have vrq: "fl (134 / 3) = (6286274479871317 / 140737488355328)"
    by (subst fl_eval [where n = 5]) (simp_all add: round_half_even_def Let_def)
  have vrsum: "real_of_int (sum_list ([44, 45, 45] :: int list)) = 134" by simp
  have vrlen: "real (length ([44, 45, 45] :: int list)) = 3" by simp
  have vravg: "avg_double [44, 45, 45] = Some (6286274479871317 / 140737488355328)"
    unfolding avg_double_def vrsum vrlen vrs vrn vrq by simp
  have vps: "fl 194 = 194"
    by (subst fl_eval [where n = 7]) (simp_all add: round_half_even_def Let_def)
  have vpn: "fl 3 = 3"
    by (subst fl_eval [where n = 1]) (simp_all add: round_half_even_def Let_def)
  have vpq: "fl (194 / 3) = (4550512123488939 / 70368744177664)"
    by (subst fl_eval [where n = 6]) (simp_all add: round_half_even_def Let_def)
  have vpsum: "real_of_int (sum_list ([64, 65, 65] :: int list)) = 194" by simp
  have vplen: "real (length ([64, 65, 65] :: int list)) = 3" by simp
  have vpavg: "avg_double [64, 65, 65] = Some (4550512123488939 / 70368744177664)"
    unfolding avg_double_def vpsum vplen vps vpn vpq by simp
  have vrsel: "map signal (recent_rows (7200 - hours_delta 1) ''Kitchen'' ''HomeNet''
     [\<lparr>scan_timestamp = 1000, room = ''Kitchen'', ssid = ''HomeNet'', signal = 64\<rparr>,
      \<lparr>scan_timestamp = 1100, room = ''Kitchen'', ssid = ''HomeNet'', signal = 65\<rparr>,
      \<lparr>scan_timestamp = 1200, room = ''Kitchen'', ssid = ''HomeNet'', signal = 65\<rparr>,
      \<lparr>scan_timestamp = 5000, room = ''Kitchen'', ssid = ''HomeNet'', signal = 44\<rparr>,
      \<lparr>scan_timestamp = 5100, room = ''Kitchen'', ssid = ''HomeNet'', signal = 45\<rparr>,
      \<lparr>scan_timestamp = 5200, room = ''Kitchen'', ssid = ''HomeNet'', signal = 45\<rparr>]) = [44, 45, 45]"
    by (simp add: recent_rows_def hours_delta_def)
  have vpsel: "map signal (previous_rows (7200 - hours_delta 2) (7200 - hours_delta 1) ''Kitchen'' ''HomeNet''
     [\<lparr>scan_timestamp = 1000, room = ''Kitchen'', ssid = ''HomeNet'', signal = 64\<rparr>,
      \<lparr>scan_timestamp = 1100, room = ''Kitchen'', ssid = ''HomeNet'', signal = 65\<rparr>,
      \<lparr>scan_timestamp = 1200, room = ''Kitchen'', ssid = ''HomeNet'', signal = 65\<rparr>,
      \<lparr>scan_timestamp = 5000, room = ''Kitchen'', ssid = ''HomeNet'', signal = 44\<rparr>,
      \<lparr>scan_timestamp = 5100, room = ''Kitchen'', ssid = ''HomeNet'', signal = 45\<rparr>,
      \<lparr>scan_timestamp = 5200, room = ''Kitchen'', ssid = ''HomeNet'', signal = 45\<rparr>]) = [64, 65, 65]"
    by (simp add: previous_rows_def hours_delta_def)
  have vra: "recent_avg_double (7200 - hours_delta 1) ''Kitchen'' ''HomeNet''
     [\<lparr>scan_timestamp = 1000, room = ''Kitchen'', ssid = ''HomeNet'', signal = 64\<rparr>,
      \<lparr>scan_timestamp = 1100, room = ''Kitchen'', ssid = ''HomeNet'', signal = 65\<rparr>,
      \<lparr>scan_timestamp = 1200, room = ''Kitchen'', ssid = ''HomeNet'', signal = 65\<rparr>,
      \<lparr>scan_timestamp = 5000, room = ''Kitchen'', ssid = ''HomeNet'', signal = 44\<rparr>,
      \<lparr>scan_timestamp = 5100, room = ''Kitchen'', ssid = ''HomeNet'', signal = 45\<rparr>,
      \<lparr>scan_timestamp = 5200, room = ''Kitchen'', ssid = ''HomeNet'', signal = 45\<rparr>] = Some (6286274479871317 / 140737488355328)"
    unfolding recent_avg_double_def vrsel vravg ..
  have vpa: "previous_avg_double (7200 - hours_delta 2) (7200 - hours_delta 1) ''Kitchen'' ''HomeNet''
     [\<lparr>scan_timestamp = 1000, room = ''Kitchen'', ssid = ''HomeNet'', signal = 64\<rparr>,
      \<lparr>scan_timestamp = 1100, room = ''Kitchen'', ssid = ''HomeNet'', signal = 65\<rparr>,
      \<lparr>scan_timestamp = 1200, room = ''Kitchen'', ssid = ''HomeNet'', signal = 65\<rparr>,
      \<lparr>scan_timestamp = 5000, room = ''Kitchen'', ssid = ''HomeNet'', signal = 44\<rparr>,
      \<lparr>scan_timestamp = 5100, room = ''Kitchen'', ssid = ''HomeNet'', signal = 45\<rparr>,
      \<lparr>scan_timestamp = 5200, room = ''Kitchen'', ssid = ''HomeNet'', signal = 45\<rparr>] = Some (4550512123488939 / 70368744177664)"
    unfolding previous_avg_double_def vpsel vpavg ..
  have vrh: "fl ((6286274479871317 / 140737488355328) / 2) = (6286274479871317 / 281474976710656)"
    by (subst fl_eval [where n = 4]) (simp_all add: round_half_even_def Let_def)
  have vrd: "fl ((6286274479871317 / 281474976710656) - 100) = (- 5465305797798571 / 70368744177664)"
    by (subst fl_eval [where n = 6]) (simp_all add: round_half_even_def Let_def)
  have vrdbm: "dbm_double (6286274479871317 / 140737488355328) = (- 5465305797798571 / 70368744177664)"
    unfolding dbm_double_def vrh vrd ..
  have vph: "fl ((4550512123488939 / 70368744177664) / 2) = (4550512123488939 / 140737488355328)"
    by (subst fl_eval [where n = 5]) (simp_all add: round_half_even_def Let_def)
  have vpd: "fl ((4550512123488939 / 140737488355328) - 100) = (- 2380809178010965 / 35184372088832)"
    by (subst fl_eval [where n = 6]) (simp_all add: round_half_even_def Let_def)
  have vpdbm: "dbm_double (4550512123488939 / 70368744177664) = (- 2380809178010965 / 35184372088832)"
    unfolding dbm_double_def vph vpd ..
  have vg: "fl ((- 5465305797798571 / 70368744177664) - (- 2380809178010965 / 35184372088832)) = (- 703687441776641 / 70368744177664)"
    by (subst fl_eval [where n = 3]) (simp_all add: round_half_even_def Let_def)
  have vdeg: "fl (dbm_double (6286274479871317 / 140737488355328) - dbm_double (4550512123488939 / 70368744177664)) = (- 703687441776641 / 70368744177664)"
    unfolding vrdbm vpdbm vg ..
  have firstcond: "\<exists>r p. recent_avg_double (7200 - hours_delta 1) ''Kitchen'' ''HomeNet''
     [\<lparr>scan_timestamp = 1000, room = ''Kitchen'', ssid = ''HomeNet'', signal = 60\<rparr>,
      \<lparr>scan_timestamp = 5000, room = ''Kitchen'', ssid = ''HomeNet'', signal = 10\<rparr>] = Some r
      \<and> previous_avg_double (7200 - hours_delta 2) (7200 - hours_delta 1) ''Kitchen'' ''HomeNet''
     [\<lparr>scan_timestamp = 1000, room = ''Kitchen'', ssid = ''HomeNet'', signal = 60\<rparr>,
      \<lparr>scan_timestamp = 5000, room = ''Kitchen'', ssid = ''HomeNet'', signal = 10\<rparr>] = Some p
      \<and> r \<noteq> 0 \<and> p \<noteq> 0 \<and> fl (dbm_double r - dbm_double p) < - 10"
    by (intro exI [of _ "10"] exI [of _ "60"] conjI ara apa)
       (simp_all add: adeg)
  have "\<exists>a. fst (check_signal_degradation 7200
     (Inr [\<lparr>scan_timestamp = 1000, room = ''Kitchen'', ssid = ''HomeNet'', signal = 60\<rparr>,
      \<lparr>scan_timestamp = 5000, room = ''Kitchen'', ssid = ''HomeNet'', signal = 10\<rparr>]) ''Kitchen'' ''HomeNet'' []) = Inr (Some a)"
    using check_signal_degradation_emits_iff [of 7200
     "[\<lparr>scan_timestamp = 1000, room = ''Kitchen'', ssid = ''HomeNet'', signal = 60\<rparr>,
      \<lparr>scan_timestamp = 5000, room = ''Kitchen'', ssid = ''HomeNet'', signal = 10\<rparr>]" "''Kitchen''" "''HomeNet''" "[]", THEN conjunct1] firstcond
    by blast
  then obtain firsta where firstfa: "fst (check_signal_degradation 7200
     (Inr [\<lparr>scan_timestamp = 1000, room = ''Kitchen'', ssid = ''HomeNet'', signal = 60\<rparr>,
      \<lparr>scan_timestamp = 5000, room = ''Kitchen'', ssid = ''HomeNet'', signal = 10\<rparr>]) ''Kitchen'' ''HomeNet'' []) = Inr (Some firsta)" ..
  from check_signal_degradation_emits_iff [of 7200
     "[\<lparr>scan_timestamp = 1000, room = ''Kitchen'', ssid = ''HomeNet'', signal = 60\<rparr>,
      \<lparr>scan_timestamp = 5000, room = ''Kitchen'', ssid = ''HomeNet'', signal = 10\<rparr>]" "''Kitchen''" "''HomeNet''" "[]", THEN conjunct2, THEN conjunct1, THEN spec, THEN mp, OF firstfa]
  obtain r p where firstr: "recent_avg_double (7200 - hours_delta 1) ''Kitchen'' ''HomeNet''
     [\<lparr>scan_timestamp = 1000, room = ''Kitchen'', ssid = ''HomeNet'', signal = 60\<rparr>,
      \<lparr>scan_timestamp = 5000, room = ''Kitchen'', ssid = ''HomeNet'', signal = 10\<rparr>] = Some r"
    and firstp: "previous_avg_double (7200 - hours_delta 2) (7200 - hours_delta 1) ''Kitchen'' ''HomeNet''
     [\<lparr>scan_timestamp = 1000, room = ''Kitchen'', ssid = ''HomeNet'', signal = 60\<rparr>,
      \<lparr>scan_timestamp = 5000, room = ''Kitchen'', ssid = ''HomeNet'', signal = 10\<rparr>] = Some p"
    and firstal: "firsta = degradation_alert 7200 ''Kitchen'' ''HomeNet'' r p"
    and firstsn: "snd (check_signal_degradation 7200
     (Inr [\<lparr>scan_timestamp = 1000, room = ''Kitchen'', ssid = ''HomeNet'', signal = 60\<rparr>,
      \<lparr>scan_timestamp = 5000, room = ''Kitchen'', ssid = ''HomeNet'', signal = 10\<rparr>]) ''Kitchen'' ''HomeNet'' []) = [] @ [firsta]"
    by blast
  have firstreq: "r = 10" using firstr unfolding ara by (simp only: option.inject)
  have firstpeq: "p = 60" using firstp unfolding apa by (simp only: option.inject)
  have first: "check_signal_degradation 7200
     (Inr [\<lparr>scan_timestamp = 1000, room = ''Kitchen'', ssid = ''HomeNet'', signal = 60\<rparr>,
      \<lparr>scan_timestamp = 5000, room = ''Kitchen'', ssid = ''HomeNet'', signal = 10\<rparr>]) ''Kitchen'' ''HomeNet'' []
   = (Inr (Some (degradation_alert 7200 ''Kitchen'' ''HomeNet'' 10 60)),
      [degradation_alert 7200 ''Kitchen'' ''HomeNet'' 10 60])"
    using firstfa firstsn unfolding firstal firstreq firstpeq
    by (simp add: prod_eq_iff)
  have second: "check_signal_degradation 7200
     (Inr [\<lparr>scan_timestamp = 1000, room = ''Kitchen'', ssid = ''HomeNet'', signal = 60\<rparr>,
      \<lparr>scan_timestamp = 5000, room = ''Kitchen'', ssid = ''HomeNet'', signal = 40\<rparr>]) ''Kitchen'' ''HomeNet'' []
   = (Inr None, [])"
    using check_signal_degradation_emits_iff [of 7200
     "[\<lparr>scan_timestamp = 1000, room = ''Kitchen'', ssid = ''HomeNet'', signal = 60\<rparr>,
      \<lparr>scan_timestamp = 5000, room = ''Kitchen'', ssid = ''HomeNet'', signal = 40\<rparr>]" "''Kitchen''" "''HomeNet''" "[]",
       THEN conjunct2, THEN conjunct2, THEN conjunct1, THEN spec, THEN spec,
       of "40" "60"] bra bpa bdeg
    by simp
  have thirdcond: "\<exists>r p. recent_avg_double (7200 - hours_delta 1) ''Kitchen'' ''HomeNet''
     [\<lparr>scan_timestamp = 1000, room = ''Kitchen'', ssid = ''HomeNet'', signal = 64\<rparr>,
      \<lparr>scan_timestamp = 1100, room = ''Kitchen'', ssid = ''HomeNet'', signal = 65\<rparr>,
      \<lparr>scan_timestamp = 1200, room = ''Kitchen'', ssid = ''HomeNet'', signal = 65\<rparr>,
      \<lparr>scan_timestamp = 5000, room = ''Kitchen'', ssid = ''HomeNet'', signal = 44\<rparr>,
      \<lparr>scan_timestamp = 5100, room = ''Kitchen'', ssid = ''HomeNet'', signal = 45\<rparr>,
      \<lparr>scan_timestamp = 5200, room = ''Kitchen'', ssid = ''HomeNet'', signal = 45\<rparr>] = Some r
      \<and> previous_avg_double (7200 - hours_delta 2) (7200 - hours_delta 1) ''Kitchen'' ''HomeNet''
     [\<lparr>scan_timestamp = 1000, room = ''Kitchen'', ssid = ''HomeNet'', signal = 64\<rparr>,
      \<lparr>scan_timestamp = 1100, room = ''Kitchen'', ssid = ''HomeNet'', signal = 65\<rparr>,
      \<lparr>scan_timestamp = 1200, room = ''Kitchen'', ssid = ''HomeNet'', signal = 65\<rparr>,
      \<lparr>scan_timestamp = 5000, room = ''Kitchen'', ssid = ''HomeNet'', signal = 44\<rparr>,
      \<lparr>scan_timestamp = 5100, room = ''Kitchen'', ssid = ''HomeNet'', signal = 45\<rparr>,
      \<lparr>scan_timestamp = 5200, room = ''Kitchen'', ssid = ''HomeNet'', signal = 45\<rparr>] = Some p
      \<and> r \<noteq> 0 \<and> p \<noteq> 0 \<and> fl (dbm_double r - dbm_double p) < - 10"
    by (intro exI [of _ "(6286274479871317 / 140737488355328)"] exI [of _ "(4550512123488939 / 70368744177664)"] conjI vra vpa)
       (simp_all add: vdeg)
  have "\<exists>a. fst (check_signal_degradation 7200
     (Inr [\<lparr>scan_timestamp = 1000, room = ''Kitchen'', ssid = ''HomeNet'', signal = 64\<rparr>,
      \<lparr>scan_timestamp = 1100, room = ''Kitchen'', ssid = ''HomeNet'', signal = 65\<rparr>,
      \<lparr>scan_timestamp = 1200, room = ''Kitchen'', ssid = ''HomeNet'', signal = 65\<rparr>,
      \<lparr>scan_timestamp = 5000, room = ''Kitchen'', ssid = ''HomeNet'', signal = 44\<rparr>,
      \<lparr>scan_timestamp = 5100, room = ''Kitchen'', ssid = ''HomeNet'', signal = 45\<rparr>,
      \<lparr>scan_timestamp = 5200, room = ''Kitchen'', ssid = ''HomeNet'', signal = 45\<rparr>]) ''Kitchen'' ''HomeNet'' []) = Inr (Some a)"
    using check_signal_degradation_emits_iff [of 7200
     "[\<lparr>scan_timestamp = 1000, room = ''Kitchen'', ssid = ''HomeNet'', signal = 64\<rparr>,
      \<lparr>scan_timestamp = 1100, room = ''Kitchen'', ssid = ''HomeNet'', signal = 65\<rparr>,
      \<lparr>scan_timestamp = 1200, room = ''Kitchen'', ssid = ''HomeNet'', signal = 65\<rparr>,
      \<lparr>scan_timestamp = 5000, room = ''Kitchen'', ssid = ''HomeNet'', signal = 44\<rparr>,
      \<lparr>scan_timestamp = 5100, room = ''Kitchen'', ssid = ''HomeNet'', signal = 45\<rparr>,
      \<lparr>scan_timestamp = 5200, room = ''Kitchen'', ssid = ''HomeNet'', signal = 45\<rparr>]" "''Kitchen''" "''HomeNet''" "[]", THEN conjunct1] thirdcond
    by blast
  then obtain thirda where thirdfa: "fst (check_signal_degradation 7200
     (Inr [\<lparr>scan_timestamp = 1000, room = ''Kitchen'', ssid = ''HomeNet'', signal = 64\<rparr>,
      \<lparr>scan_timestamp = 1100, room = ''Kitchen'', ssid = ''HomeNet'', signal = 65\<rparr>,
      \<lparr>scan_timestamp = 1200, room = ''Kitchen'', ssid = ''HomeNet'', signal = 65\<rparr>,
      \<lparr>scan_timestamp = 5000, room = ''Kitchen'', ssid = ''HomeNet'', signal = 44\<rparr>,
      \<lparr>scan_timestamp = 5100, room = ''Kitchen'', ssid = ''HomeNet'', signal = 45\<rparr>,
      \<lparr>scan_timestamp = 5200, room = ''Kitchen'', ssid = ''HomeNet'', signal = 45\<rparr>]) ''Kitchen'' ''HomeNet'' []) = Inr (Some thirda)" ..
  from check_signal_degradation_emits_iff [of 7200
     "[\<lparr>scan_timestamp = 1000, room = ''Kitchen'', ssid = ''HomeNet'', signal = 64\<rparr>,
      \<lparr>scan_timestamp = 1100, room = ''Kitchen'', ssid = ''HomeNet'', signal = 65\<rparr>,
      \<lparr>scan_timestamp = 1200, room = ''Kitchen'', ssid = ''HomeNet'', signal = 65\<rparr>,
      \<lparr>scan_timestamp = 5000, room = ''Kitchen'', ssid = ''HomeNet'', signal = 44\<rparr>,
      \<lparr>scan_timestamp = 5100, room = ''Kitchen'', ssid = ''HomeNet'', signal = 45\<rparr>,
      \<lparr>scan_timestamp = 5200, room = ''Kitchen'', ssid = ''HomeNet'', signal = 45\<rparr>]" "''Kitchen''" "''HomeNet''" "[]", THEN conjunct2, THEN conjunct1, THEN spec, THEN mp, OF thirdfa]
  obtain r p where thirdr: "recent_avg_double (7200 - hours_delta 1) ''Kitchen'' ''HomeNet''
     [\<lparr>scan_timestamp = 1000, room = ''Kitchen'', ssid = ''HomeNet'', signal = 64\<rparr>,
      \<lparr>scan_timestamp = 1100, room = ''Kitchen'', ssid = ''HomeNet'', signal = 65\<rparr>,
      \<lparr>scan_timestamp = 1200, room = ''Kitchen'', ssid = ''HomeNet'', signal = 65\<rparr>,
      \<lparr>scan_timestamp = 5000, room = ''Kitchen'', ssid = ''HomeNet'', signal = 44\<rparr>,
      \<lparr>scan_timestamp = 5100, room = ''Kitchen'', ssid = ''HomeNet'', signal = 45\<rparr>,
      \<lparr>scan_timestamp = 5200, room = ''Kitchen'', ssid = ''HomeNet'', signal = 45\<rparr>] = Some r"
    and thirdp: "previous_avg_double (7200 - hours_delta 2) (7200 - hours_delta 1) ''Kitchen'' ''HomeNet''
     [\<lparr>scan_timestamp = 1000, room = ''Kitchen'', ssid = ''HomeNet'', signal = 64\<rparr>,
      \<lparr>scan_timestamp = 1100, room = ''Kitchen'', ssid = ''HomeNet'', signal = 65\<rparr>,
      \<lparr>scan_timestamp = 1200, room = ''Kitchen'', ssid = ''HomeNet'', signal = 65\<rparr>,
      \<lparr>scan_timestamp = 5000, room = ''Kitchen'', ssid = ''HomeNet'', signal = 44\<rparr>,
      \<lparr>scan_timestamp = 5100, room = ''Kitchen'', ssid = ''HomeNet'', signal = 45\<rparr>,
      \<lparr>scan_timestamp = 5200, room = ''Kitchen'', ssid = ''HomeNet'', signal = 45\<rparr>] = Some p"
    and thirdal: "thirda = degradation_alert 7200 ''Kitchen'' ''HomeNet'' r p"
    and thirdsn: "snd (check_signal_degradation 7200
     (Inr [\<lparr>scan_timestamp = 1000, room = ''Kitchen'', ssid = ''HomeNet'', signal = 64\<rparr>,
      \<lparr>scan_timestamp = 1100, room = ''Kitchen'', ssid = ''HomeNet'', signal = 65\<rparr>,
      \<lparr>scan_timestamp = 1200, room = ''Kitchen'', ssid = ''HomeNet'', signal = 65\<rparr>,
      \<lparr>scan_timestamp = 5000, room = ''Kitchen'', ssid = ''HomeNet'', signal = 44\<rparr>,
      \<lparr>scan_timestamp = 5100, room = ''Kitchen'', ssid = ''HomeNet'', signal = 45\<rparr>,
      \<lparr>scan_timestamp = 5200, room = ''Kitchen'', ssid = ''HomeNet'', signal = 45\<rparr>]) ''Kitchen'' ''HomeNet'' []) = [] @ [thirda]"
    by blast
  have thirdreq: "r = (6286274479871317 / 140737488355328)" using thirdr unfolding vra by (simp only: option.inject)
  have thirdpeq: "p = (4550512123488939 / 70368744177664)" using thirdp unfolding vpa by (simp only: option.inject)
  have third: "check_signal_degradation 7200
     (Inr [\<lparr>scan_timestamp = 1000, room = ''Kitchen'', ssid = ''HomeNet'', signal = 64\<rparr>,
      \<lparr>scan_timestamp = 1100, room = ''Kitchen'', ssid = ''HomeNet'', signal = 65\<rparr>,
      \<lparr>scan_timestamp = 1200, room = ''Kitchen'', ssid = ''HomeNet'', signal = 65\<rparr>,
      \<lparr>scan_timestamp = 5000, room = ''Kitchen'', ssid = ''HomeNet'', signal = 44\<rparr>,
      \<lparr>scan_timestamp = 5100, room = ''Kitchen'', ssid = ''HomeNet'', signal = 45\<rparr>,
      \<lparr>scan_timestamp = 5200, room = ''Kitchen'', ssid = ''HomeNet'', signal = 45\<rparr>]) ''Kitchen'' ''HomeNet'' []
   = (Inr (Some (degradation_alert 7200 ''Kitchen'' ''HomeNet'' (6286274479871317 / 140737488355328) (4550512123488939 / 70368744177664))),
      [degradation_alert 7200 ''Kitchen'' ''HomeNet'' (6286274479871317 / 140737488355328) (4550512123488939 / 70368744177664)])"
    using thirdfa thirdsn unfolding thirdal thirdreq thirdpeq
    by (simp add: prod_eq_iff)
  have fourth: "recent_rows (7200 - hours_delta 1) ''Kitchen'' ''HomeNet''
     [\<lparr>scan_timestamp = 1000, room = ''Kitchen'', ssid = ''HomeNet'', signal = 60\<rparr>,
      \<lparr>scan_timestamp = 5000, room = ''Kitchen'', ssid = ''HomeNet'', signal = 10\<rparr>]
   = previous_rows (7200 - hours_delta 1) 7200 ''Kitchen'' ''HomeNet''
     [\<lparr>scan_timestamp = 1000, room = ''Kitchen'', ssid = ''HomeNet'', signal = 60\<rparr>,
      \<lparr>scan_timestamp = 5000, room = ''Kitchen'', ssid = ''HomeNet'', signal = 10\<rparr>]"
    using check_signal_degradation_emits_iff [of 7200
     "[\<lparr>scan_timestamp = 1000, room = ''Kitchen'', ssid = ''HomeNet'', signal = 60\<rparr>,
      \<lparr>scan_timestamp = 5000, room = ''Kitchen'', ssid = ''HomeNet'', signal = 10\<rparr>]" "''Kitchen''" "''HomeNet''" "[]", THEN conjunct2, THEN conjunct2, THEN conjunct2]
    by simp
  from first second vdeg third fourth show ?thesis by blast
qed

text \<open>
  With "both averages are defined" alone the statement fails: the previous window holds
  \<open>-40\<close> and \<open>40\<close>, raw average \<open>0\<close>, and the recent window holds \<open>-95\<close>. Both averages
  exist and the drop is more than 10 dBm, whether the averages are converted once
  (\<open>-147.5\<close> against \<open>-100\<close>) or row by row (\<open>-95\<close> against \<open>-60\<close>), yet nothing is emitted,
  because the zero average counts as false.
\<close>

theorem check_signal_degradation_claim_counterexample:
  "recent_rows (7200 - hours_delta 1) ''Kitchen'' ''HomeNet''
     [\<lparr>scan_timestamp = 1000, room = ''Kitchen'', ssid = ''HomeNet'', signal = - 40\<rparr>,
      \<lparr>scan_timestamp = 1100, room = ''Kitchen'', ssid = ''HomeNet'', signal = 40\<rparr>,
      \<lparr>scan_timestamp = 5000, room = ''Kitchen'', ssid = ''HomeNet'', signal = - 95\<rparr>] \<noteq> []
   \<and> previous_rows (7200 - hours_delta 2) (7200 - hours_delta 1) ''Kitchen'' ''HomeNet''
     [\<lparr>scan_timestamp = 1000, room = ''Kitchen'', ssid = ''HomeNet'', signal = - 40\<rparr>,
      \<lparr>scan_timestamp = 1100, room = ''Kitchen'', ssid = ''HomeNet'', signal = 40\<rparr>,
      \<lparr>scan_timestamp = 5000, room = ''Kitchen'', ssid = ''HomeNet'', signal = - 95\<rparr>] \<noteq> []
   \<and> recent_avg (7200 - hours_delta 1) ''Kitchen'' ''HomeNet''
     [\<lparr>scan_timestamp = 1000, room = ''Kitchen'', ssid = ''HomeNet'', signal = - 40\<rparr>,
      \<lparr>scan_timestamp = 1100, room = ''Kitchen'', ssid = ''HomeNet'', signal = 40\<rparr>,
      \<lparr>scan_timestamp = 5000, room = ''Kitchen'', ssid = ''HomeNet'', signal = - 95\<rparr>] = Some (- 95)
   \<and> previous_avg (7200 - hours_delta 2) (7200 - hours_delta 1) ''Kitchen'' ''HomeNet''
     [\<lparr>scan_timestamp = 1000, room = ''Kitchen'', ssid = ''HomeNet'', signal = - 40\<rparr>,
      \<lparr>scan_timestamp = 1100, room = ''Kitchen'', ssid = ''HomeNet'', signal = 40\<rparr>,
      \<lparr>scan_timestamp = 5000, room = ''Kitchen'', ssid = ''HomeNet'', signal = - 95\<rparr>] = Some 0
   \<and> avg_to_dbm (- 95) - avg_to_dbm 0 < - 10
   \<and> spec_mean_dbm (map signal (recent_rows (7200 - hours_delta 1) ''Kitchen'' ''HomeNet''
     [\<lparr>scan_timestamp = 1000, room = ''Kitchen'', ssid = ''HomeNet'', signal = - 40\<rparr>,
      \<lparr>scan_timestamp = 1100, room = ''Kitchen'', ssid = ''HomeNet'', signal = 40\<rparr>,
      \<lparr>scan_timestamp = 5000, room = ''Kitchen'', ssid = ''HomeNet'', signal = - 95\<rparr>])) = Some (- 95)
   \<and> spec_mean_dbm (map signal
        (previous_rows (7200 - hours_delta 2) (7200 - hours_delta 1) ''Kitchen'' ''HomeNet''
     [\<lparr>scan_timestamp = 1000, room = ''Kitchen'', ssid = ''HomeNet'', signal = - 40\<rparr>,
      \<lparr>scan_timestamp = 1100, room = ''Kitchen'', ssid = ''HomeNet'', signal = 40\<rparr>,
      \<lparr>scan_timestamp = 5000, room = ''Kitchen'', ssid = ''HomeNet'', signal = - 95\<rparr>])) = Some (- 60)
   \<and> (- 95 :: real) - (- 60) < - 10
   \<and> previous_avg_double (7200 - hours_delta 2) (7200 - hours_delta 1) ''Kitchen'' ''HomeNet''
     [\<lparr>scan_timestamp = 1000, room = ''Kitchen'', ssid = ''HomeNet'', signal = - 40\<rparr>,
      \<lparr>scan_timestamp = 1100, room = ''Kitchen'', ssid = ''HomeNet'', signal = 40\<rparr>,
      \<lparr>scan_timestamp = 5000, room = ''Kitchen'', ssid = ''HomeNet'', signal = - 95\<rparr>] = Some 0
   \<and> check_signal_degradation 7200
     (Inr [\<lparr>scan_timestamp = 1000, room = ''Kitchen'', ssid = ''HomeNet'', signal = - 40\<rparr>,
      \<lparr>scan_timestamp = 1100, room = ''Kitchen'', ssid = ''HomeNet'', signal = 40\<rparr>,
      \<lparr>scan_timestamp = 5000, room = ''Kitchen'', ssid = ''HomeNet'', signal = - 95\<rparr>]) ''Kitchen'' ''HomeNet'' []
   = (Inr None, [])"
proof -
  have pz: "previous_avg_double (7200 - hours_delta 2) (7200 - hours_delta 1) ''Kitchen'' ''HomeNet''
     [\<lparr>scan_timestamp = 1000, room = ''Kitchen'', ssid = ''HomeNet'', signal = - 40\<rparr>,
      \<lparr>scan_timestamp = 1100, room = ''Kitchen'', ssid = ''HomeNet'', signal = 40\<rparr>,
      \<lparr>scan_timestamp = 5000, room = ''Kitchen'', ssid = ''HomeNet'', signal = - 95\<rparr>] = Some 0"
    by (simp add: previous_avg_double_def previous_rows_def hours_delta_def avg_double_def
        fl_zero)
  have none: "check_signal_degradation 7200
     (Inr [\<lparr>scan_timestamp = 1000, room = ''Kitchen'', ssid = ''HomeNet'', signal = - 40\<rparr>,
      \<lparr>scan_timestamp = 1100, room = ''Kitchen'', ssid = ''HomeNet'', signal = 40\<rparr>,
      \<lparr>scan_timestamp = 5000, room = ''Kitchen'', ssid = ''HomeNet'', signal = - 95\<rparr>]) ''Kitchen'' ''HomeNet'' []
   = (Inr None, [])"
    unfolding check_signal_degradation_eq pz by (simp split: option.split)
  have claim_side: "recent_rows (7200 - hours_delta 1) ''Kitchen'' ''HomeNet''
     [\<lparr>scan_timestamp = 1000, room = ''Kitchen'', ssid = ''HomeNet'', signal = - 40\<rparr>,
      \<lparr>scan_timestamp = 1100, room = ''Kitchen'', ssid = ''HomeNet'', signal = 40\<rparr>,
      \<lparr>scan_timestamp = 5000, room = ''Kitchen'', ssid = ''HomeNet'', signal = - 95\<rparr>] \<noteq> []
   \<and> previous_rows (7200 - hours_delta 2) (7200 - hours_delta 1) ''Kitchen'' ''HomeNet''
     [\<lparr>scan_timestamp = 1000, room = ''Kitchen'', ssid = ''HomeNet'', signal = - 40\<rparr>,
      \<lparr>scan_timestamp = 1100, room = ''Kitchen'', ssid = ''HomeNet'', signal = 40\<rparr>,
      \<lparr>scan_timestamp = 5000, room = ''Kitchen'', ssid = ''HomeNet'', signal = - 95\<rparr>] \<noteq> []
   \<and> recent_avg (7200 - hours_delta 1) ''Kitchen'' ''HomeNet''
     [\<lparr>scan_timestamp = 1000, room = ''Kitchen'', ssid = ''HomeNet'', signal = - 40\<rparr>,
      \<lparr>scan_timestamp = 1100, room = ''Kitchen'', ssid = ''HomeNet'', signal = 40\<rparr>,
      \<lparr>scan_timestamp = 5000, room = ''Kitchen'', ssid = ''HomeNet'', signal = - 95\<rparr>] = Some (- 95)
   \<and> previous_avg (7200 - hours_delta 2) (7200 - hours_delta 1) ''Kitchen'' ''HomeNet''
     [\<lparr>scan_timestamp = 1000, room = ''Kitchen'', ssid = ''HomeNet'', signal = - 40\<rparr>,
      \<lparr>scan_timestamp = 1100, room = ''Kitchen'', ssid = ''HomeNet'', signal = 40\<rparr>,
      \<lparr>scan_timestamp = 5000, room = ''Kitchen'', ssid = ''HomeNet'', signal = - 95\<rparr>] = Some 0
   \<and> avg_to_dbm (- 95) - avg_to_dbm 0 < - 10
   \<and> spec_mean_dbm (map signal (recent_rows (7200 - hours_delta 1) ''Kitchen'' ''HomeNet''
     [\<lparr>scan_timestamp = 1000, room = ''Kitchen'', ssid = ''HomeNet'', signal = - 40\<rparr>,
      \<lparr>scan_timestamp = 1100, room = ''Kitchen'', ssid = ''HomeNet'', signal = 40\<rparr>,
      \<lparr>scan_timestamp = 5000, room = ''Kitchen'', ssid = ''HomeNet'', signal = - 95\<rparr>])) = Some (- 95)
   \<and> spec_mean_dbm (map signal
        (previous_rows (7200 - hours_delta 2) (7200 - hours_delta 1) ''Kitchen'' ''HomeNet''
     [\<lparr>scan_timestamp = 1000, room = ''Kitchen'', ssid = ''HomeNet'', signal = - 40\<rparr>,
      \<lparr>scan_timestamp = 1100, room = ''Kitchen'', ssid = ''HomeNet'', signal = 40\<rparr>,
      \<lparr>scan_timestamp = 5000, room = ''Kitchen'', ssid = ''HomeNet'', signal = - 95\<rparr>])) = Some (- 60)
   \<and> (- 95 :: real) - (- 60) < - 10"
    by (simp add: recent_avg_def previous_avg_def recent_rows_def previous_rows_def sql_avg_def hours_delta_def avg_to_dbm_def spec_mean_dbm_def signal_dbm_def)
  from claim_side pz none show ?thesis by blast
qed

text \<open>
  C3 (as amended). \<^verbatim>\<open>check_signal_degradation\<close> emits nothing when one of its two windows
  selects no row, and also nothing when the average of one window is exactly zero. When
  both windows select rows and neither average is zero, the comparison of the difference,
  as computed in double precision, with \<open>-10\<close> alone decides whether the alert is emitted.
\<close>

theorem check_signal_degradation_windows:
  "(recent_rows (now - hours_delta 1) rm s rows = []
      \<or> previous_rows (now - hours_delta 2) (now - hours_delta 1) rm s rows = [] \<longrightarrow>
        check_signal_degradation now (Inr rows) rm s alerts = (Inr None, alerts))
   \<and> (recent_avg_double (now - hours_delta 1) rm s rows = Some 0
      \<or> previous_avg_double (now - hours_delta 2) (now - hours_delta 1) rm s rows = Some 0 \<longrightarrow>
        check_signal_degradation now (Inr rows) rm s alerts = (Inr None, alerts))
   \<and> (recent_rows (now - hours_delta 1) rm s rows \<noteq> []
      \<and> previous_rows (now - hours_delta 2) (now - hours_delta 1) rm s rows \<noteq> []
      \<and> recent_avg_double (now - hours_delta 1) rm s rows \<noteq> Some 0
      \<and> previous_avg_double (now - hours_delta 2) (now - hours_delta 1) rm s rows \<noteq> Some 0 \<longrightarrow>
        (\<exists>r p. recent_avg_double (now - hours_delta 1) rm s rows = Some r
           \<and> previous_avg_double (now - hours_delta 2) (now - hours_delta 1) rm s rows = Some p
           \<and> check_signal_degradation now (Inr rows) rm s alerts =
               (if fl (dbm_double r - dbm_double p) < - 10
                then (Inr (Some (degradation_alert now rm s r p)),
                      alerts @ [degradation_alert now rm s r p])
                else (Inr None, alerts))))"
proof -
  have e1: "recent_rows (now - hours_delta 1) rm s rows = [] \<longleftrightarrow>
            recent_avg_double (now - hours_delta 1) rm s rows = None"
    by (simp add: recent_avg_double_def avg_double_None_iff)
  have e2: "previous_rows (now - hours_delta 2) (now - hours_delta 1) rm s rows = [] \<longleftrightarrow>
            previous_avg_double (now - hours_delta 2) (now - hours_delta 1) rm s rows = None"
    by (simp add: previous_avg_double_def avg_double_None_iff)
  show ?thesis
    unfolding e1 e2
    by (auto simp: check_signal_degradation_eq split: option.splits)
qed

text \<open>
  An empty recent window gives nothing; a recent window of the single value \<open>0\<close> gives
  nothing; the rows \<open>64, 65, 65\<close> and \<open>44, 45, 45\<close>, whose computed difference is
  \<open>-10.000000000000014\<close>, give the alert.
\<close>

theorem check_signal_degradation_windows_witness:
  "check_signal_degradation 7200
     (Inr [\<lparr>scan_timestamp = 1000, room = ''Kitchen'', ssid = ''HomeNet'', signal = 60\<rparr>]) ''Kitchen'' ''HomeNet'' []
   = (Inr None, [])
   \<and> check_signal_degradation 7200
     (Inr [\<lparr>scan_timestamp = 1000, room = ''Kitchen'', ssid = ''HomeNet'', signal = 60\<rparr>,
      \<lparr>scan_timestamp = 5000, room = ''Kitchen'', ssid = ''HomeNet'', signal = 0\<rparr>]) ''Kitchen'' ''HomeNet'' []
   = (Inr None, [])
   \<and> check_signal_degradation 7200
     (Inr [\<lparr>scan_timestamp = 1000, room = ''Kitchen'', ssid = ''HomeNet'', signal = 64\<rparr>,
      \<lparr>scan_timestamp = 1100, room = ''Kitchen'', ssid = ''HomeNet'', signal = 65\<rparr>,
      \<lparr>scan_timestamp = 1200, room = ''Kitchen'', ssid = ''HomeNet'', signal = 65\<rparr>,
      \<lparr>scan_timestamp = 5000, room = ''Kitchen'', ssid = ''HomeNet'', signal = 44\<rparr>,
      \<lparr>scan_timestamp = 5100, room = ''Kitchen'', ssid = ''HomeNet'', signal = 45\<rparr>,
      \<lparr>scan_timestamp = 5200, room = ''Kitchen'', ssid = ''HomeNet'', signal = 45\<rparr>]) ''Kitchen'' ''HomeNet'' []
   = (Inr (Some (degradation_alert 7200 ''Kitchen'' ''HomeNet'' (6286274479871317 / 140737488355328) (4550512123488939 / 70368744177664))),
      [degradation_alert 7200 ''Kitchen'' ''HomeNet'' (6286274479871317 / 140737488355328) (4550512123488939 / 70368744177664)])"
proof -
  have vrs: "fl 134 = 134"
    by (subst fl_eval [where n = 7]) (simp_all add: round_half_even_def Let_def)
  have vrn: "fl 3 = 3"
    by (subst fl_eval [where n = 1]) (simp_all add: round_half_even_def Let_def)
  have vrq: "fl (134 / 3) = (6286274479871317 / 140737488355328)"
    by (subst fl_eval [where n = 5]) (simp_all add: round_half_even_def Let_def)
  have vrsum: "real_of_int (sum_list ([44, 45, 45] :: int list)) = 134" by simp
  have vrlen: "real (length ([44, 45, 45] :: int list)) = 3" by simp
  have vravg: "avg_double [44, 45, 45] = Some (6286274479871317 / 140737488355328)"
    unfolding avg_double_def vrsum vrlen vrs vrn vrq by simp
  have vps: "fl 194 = 194"
    by (subst fl_eval [where n = 7]) (simp_all add: round_half_even_def Let_def)
  have vpn: "fl 3 = 3"
    by (subst fl_eval [where n = 1]) (simp_all add: round_half_even_def Let_def)
  have vpq: "fl (194 / 3) = (4550512123488939 / 70368744177664)"
    by (subst fl_eval [where n = 6]) (simp_all add: round_half_even_def Let_def)
  have vpsum: "real_of_int (sum_list ([64, 65, 65] :: int list)) = 194" by simp
  have vplen: "real (length ([64, 65, 65] :: int list)) = 3" by simp
  have vpavg: "avg_double [64, 65, 65] = Some (4550512123488939 / 70368744177664)"
    unfolding avg_double_def vpsum vplen vps vpn vpq by simp
  have vrsel: "map signal (recent_rows (7200 - hours_delta 1) ''Kitchen'' ''HomeNet''
     [\<lparr>scan_timestamp = 1000, room = ''Kitchen'', ssid = ''HomeNet'', signal = 64\<rparr>,
      \<lparr>scan_timestamp = 1100, room = ''Kitchen'', ssid = ''HomeNet'', signal = 65\<rparr>,
      \<lparr>scan_timestamp = 1200, room = ''Kitchen'', ssid = ''HomeNet'', signal = 65\<rparr>,
      \<lparr>scan_timestamp = 5000, room = ''Kitchen'', ssid = ''HomeNet'', signal = 44\<rparr>,
      \<lparr>scan_timestamp = 5100, room = ''Kitchen'', ssid = ''HomeNet'', signal = 45\<rparr>,
      \<lparr>scan_timestamp = 5200, room = ''Kitchen'', ssid = ''HomeNet'', signal = 45\<rparr>]) = [44, 45, 45]"
    by (simp add: recent_rows_def hours_delta_def)
  have vpsel: "map signal (previous_rows (7200 - hours_delta 2) (7200 - hours_delta 1) ''Kitchen'' ''HomeNet''
     [\<lparr>scan_timestamp = 1000, room = ''Kitchen'', ssid = ''HomeNet'', signal = 64\<rparr>,
      \<lparr>scan_timestamp = 1100, room = ''Kitchen'', ssid = ''HomeNet'', signal = 65\<rparr>,
      \<lparr>scan_timestamp = 1200, room = ''Kitchen'', ssid = ''HomeNet'', signal = 65\<rparr>,
      \<lparr>scan_timestamp = 5000, room = ''Kitchen'', ssid = ''HomeNet'', signal = 44\<rparr>,
      \<lparr>scan_timestamp = 5100, room = ''Kitchen'', ssid = ''HomeNet'', signal = 45\<rparr>,
      \<lparr>scan_timestamp = 5200, room = ''Kitchen'', ssid = ''HomeNet'', signal = 45\<rparr>]) = [64, 65, 65]"
    by (simp add: previous_rows_def hours_delta_def)
  have vra: "recent_avg_double (7200 - hours_delta 1) ''Kitchen'' ''HomeNet''
     [\<lparr>scan_timestamp = 1000, room = ''Kitchen'', ssid = ''HomeNet'', signal = 64\<rparr>,
      \<lparr>scan_timestamp = 1100, room = ''Kitchen'', ssid = ''HomeNet'', signal = 65\<rparr>,
      \<lparr>scan_timestamp = 1200, room = ''Kitchen'', ssid = ''HomeNet'', signal = 65\<rparr>,
      \<lparr>scan_timestamp = 5000, room = ''Kitchen'', ssid = ''HomeNet'', signal = 44\<rparr>,
      \<lparr>scan_timestamp = 5100, room = ''Kitchen'', ssid = ''HomeNet'', signal = 45\<rparr>,
      \<lparr>scan_timestamp = 5200, room = ''Kitchen'', ssid = ''HomeNet'', signal = 45\<rparr>] = Some (6286274479871317 / 140737488355328)"
    unfolding recent_avg_double_def vrsel vravg ..
  have vpa: "previous_avg_double (7200 - hours_delta 2) (7200 - hours_delta 1) ''Kitchen'' ''HomeNet''
     [\<lparr>scan_timestamp = 1000, room = ''Kitchen'', ssid = ''HomeNet'', signal = 64\<rparr>,
      \<lparr>scan_timestamp = 1100, room = ''Kitchen'', ssid = ''HomeNet'', signal = 65\<rparr>,
      \<lparr>scan_timestamp = 1200, room = ''Kitchen'', ssid = ''HomeNet'', signal = 65\<rparr>,
      \<lparr>scan_timestamp = 5000, room = ''Kitchen'', ssid = ''HomeNet'', signal = 44\<rparr>,
      \<lparr>scan_timestamp = 5100, room = ''Kitchen'', ssid = ''HomeNet'', signal = 45\<rparr>,
      \<lparr>scan_timestamp = 5200, room = ''Kitchen'', ssid = ''HomeNet'', signal = 45\<rparr>] = Some (4550512123488939 / 70368744177664)"
    unfolding previous_avg_double_def vpsel vpavg ..
  have vrh: "fl ((6286274479871317 / 140737488355328) / 2) = (6286274479871317 / 281474976710656)"
    by (subst fl_eval [where n = 4]) (simp_all add: round_half_even_def Let_def)
  have vrd: "fl ((6286274479871317 / 281474976710656) - 100) = (- 5465305797798571 / 70368744177664)"
    by (subst fl_eval [where n = 6]) (simp_all add: round_half_even_def Let_def)
  have vrdbm: "dbm_double (6286274479871317 / 140737488355328) = (- 5465305797798571 / 70368744177664)"
    unfolding dbm_double_def vrh vrd ..
  have vph: "fl ((4550512123488939 / 70368744177664) / 2) = (4550512123488939 / 140737488355328)"
    by (subst fl_eval [where n = 5]) (simp_all add: round_half_even_def Let_def)
  have vpd: "fl ((4550512123488939 / 140737488355328) - 100) = (- 2380809178010965 / 35184372088832)"
    by (subst fl_eval [where n = 6]) (simp_all add: round_half_even_def Let_def)
  have vpdbm: "dbm_double (4550512123488939 / 70368744177664) = (- 2380809178010965 / 35184372088832)"
    unfolding dbm_double_def vph vpd ..
  have vg: "fl ((- 5465305797798571 / 70368744177664) - (- 2380809178010965 / 35184372088832)) = (- 703687441776641 / 70368744177664)"
    by (subst fl_eval [where n = 3]) (simp_all add: round_half_even_def Let_def)
  have vdeg: "fl (dbm_double (6286274479871317 / 140737488355328) - dbm_double (4550512123488939 / 70368744177664)) = (- 703687441776641 / 70368744177664)"
    unfolding vrdbm vpdbm vg ..
  have e: "recent_rows (7200 - hours_delta 1) ''Kitchen'' ''HomeNet''
     [\<lparr>scan_timestamp = 1000, room = ''Kitchen'', ssid = ''HomeNet'', signal = 60\<rparr>] = []"
    by (simp add: recent_rows_def hours_delta_def)
  have z: "recent_avg_double (7200 - hours_delta 1) ''Kitchen'' ''HomeNet''
     [\<lparr>scan_timestamp = 1000, room = ''Kitchen'', ssid = ''HomeNet'', signal = 60\<rparr>,
      \<lparr>scan_timestamp = 5000, room = ''Kitchen'', ssid = ''HomeNet'', signal = 0\<rparr>] = Some 0"
    by (simp add: recent_avg_double_def recent_rows_def hours_delta_def avg_double_def fl_zero)
  have ne: "recent_rows (7200 - hours_delta 1) ''Kitchen'' ''HomeNet''
     [\<lparr>scan_timestamp = 1000, room = ''Kitchen'', ssid = ''HomeNet'', signal = 64\<rparr>,
      \<lparr>scan_timestamp = 1100, room = ''Kitchen'', ssid = ''HomeNet'', signal = 65\<rparr>,
      \<lparr>scan_timestamp = 1200, room = ''Kitchen'', ssid = ''HomeNet'', signal = 65\<rparr>,
      \<lparr>scan_timestamp = 5000, room = ''Kitchen'', ssid = ''HomeNet'', signal = 44\<rparr>,
      \<lparr>scan_timestamp = 5100, room = ''Kitchen'', ssid = ''HomeNet'', signal = 45\<rparr>,
      \<lparr>scan_timestamp = 5200, room = ''Kitchen'', ssid = ''HomeNet'', signal = 45\<rparr>] \<noteq> []
    \<and> previous_rows (7200 - hours_delta 2) (7200 - hours_delta 1) ''Kitchen'' ''HomeNet''
     [\<lparr>scan_timestamp = 1000, room = ''Kitchen'', ssid = ''HomeNet'', signal = 64\<rparr>,
      \<lparr>scan_timestamp = 1100, room = ''Kitchen'', ssid = ''HomeNet'', signal = 65\<rparr>,
      \<lparr>scan_timestamp = 1200, room = ''Kitchen'', ssid = ''HomeNet'', signal = 65\<rparr>,
      \<lparr>scan_timestamp = 5000, room = ''Kitchen'', ssid = ''HomeNet'', signal = 44\<rparr>,
      \<lparr>scan_timestamp = 5100, room = ''Kitchen'', ssid = ''HomeNet'', signal = 45\<rparr>,
      \<lparr>scan_timestamp = 5200, room = ''Kitchen'', ssid = ''HomeNet'', signal = 45\<rparr>] \<noteq> []"
    by (simp add: recent_rows_def previous_rows_def hours_delta_def)
  have nz: "recent_avg_double (7200 - hours_delta 1) ''Kitchen'' ''HomeNet''
     [\<lparr>scan_timestamp = 1000, room = ''Kitchen'', ssid = ''HomeNet'', signal = 64\<rparr>,
      \<lparr>scan_timestamp = 1100, room = ''Kitchen'', ssid = ''HomeNet'', signal = 65\<rparr>,
      \<lparr>scan_timestamp = 1200, room = ''Kitchen'', ssid = ''HomeNet'', signal = 65\<rparr>,
      \<lparr>scan_timestamp = 5000, room = ''Kitchen'', ssid = ''HomeNet'', signal = 44\<rparr>,
      \<lparr>scan_timestamp = 5100, room = ''Kitchen'', ssid = ''HomeNet'', signal = 45\<rparr>,
      \<lparr>scan_timestamp = 5200, room = ''Kitchen'', ssid = ''HomeNet'', signal = 45\<rparr>] \<noteq> Some 0
    \<and> previous_avg_double (7200 - hours_delta 2) (7200 - hours_delta 1) ''Kitchen'' ''HomeNet''
     [\<lparr>scan_timestamp = 1000, room = ''Kitchen'', ssid = ''HomeNet'', signal = 64\<rparr>,
      \<lparr>scan_timestamp = 1100, room = ''Kitchen'', ssid = ''HomeNet'', signal = 65\<rparr>,
      \<lparr>scan_timestamp = 1200, room = ''Kitchen'', ssid = ''HomeNet'', signal = 65\<rparr>,
      \<lparr>scan_timestamp = 5000, room = ''Kitchen'', ssid = ''HomeNet'', signal = 44\<rparr>,
      \<lparr>scan_timestamp = 5100, room = ''Kitchen'', ssid = ''HomeNet'', signal = 45\<rparr>,
      \<lparr>scan_timestamp = 5200, room = ''Kitchen'', ssid = ''HomeNet'', signal = 45\<rparr>] \<noteq> Some 0"
    unfolding vra vpa by simp
  have first: "check_signal_degradation 7200
     (Inr [\<lparr>scan_timestamp = 1000, room = ''Kitchen'', ssid = ''HomeNet'', signal = 60\<rparr>]) ''Kitchen'' ''HomeNet'' []
   = (Inr None, [])"
    using check_signal_degradation_windows [of 7200 "''Kitchen''" "''HomeNet''"
     "[\<lparr>scan_timestamp = 1000, room = ''Kitchen'', ssid = ''HomeNet'', signal = 60\<rparr>]" "[]", THEN conjunct1] e
    by blast
  have second: "check_signal_degradation 7200
     (Inr [\<lparr>scan_timestamp = 1000, room = ''Kitchen'', ssid = ''HomeNet'', signal = 60\<rparr>,
      \<lparr>scan_timestamp = 5000, room = ''Kitchen'', ssid = ''HomeNet'', signal = 0\<rparr>]) ''Kitchen'' ''HomeNet'' []
   = (Inr None, [])"
    using check_signal_degradation_windows [of 7200 "''Kitchen''" "''HomeNet''"
     "[\<lparr>scan_timestamp = 1000, room = ''Kitchen'', ssid = ''HomeNet'', signal = 60\<rparr>,
      \<lparr>scan_timestamp = 5000, room = ''Kitchen'', ssid = ''HomeNet'', signal = 0\<rparr>]" "[]", THEN conjunct2, THEN conjunct1] z
    by blast
  from check_signal_degradation_windows [of 7200 "''Kitchen''" "''HomeNet''"
     "[\<lparr>scan_timestamp = 1000, room = ''Kitchen'', ssid = ''HomeNet'', signal = 64\<rparr>,
      \<lparr>scan_timestamp = 1100, room = ''Kitchen'', ssid = ''HomeNet'', signal = 65\<rparr>,
      \<lparr>scan_timestamp = 1200, room = ''Kitchen'', ssid = ''HomeNet'', signal = 65\<rparr>,
      \<lparr>scan_timestamp = 5000, room = ''Kitchen'', ssid = ''HomeNet'', signal = 44\<rparr>,
      \<lparr>scan_timestamp = 5100, room = ''Kitchen'', ssid = ''HomeNet'', signal = 45\<rparr>,
      \<lparr>scan_timestamp = 5200, room = ''Kitchen'', ssid = ''HomeNet'', signal = 45\<rparr>]" "[]", THEN conjunct2, THEN conjunct2, THEN mp] ne nz
  obtain r p where wr: "recent_avg_double (7200 - hours_delta 1) ''Kitchen'' ''HomeNet''
     [\<lparr>scan_timestamp = 1000, room = ''Kitchen'', ssid = ''HomeNet'', signal = 64\<rparr>,
      \<lparr>scan_timestamp = 1100, room = ''Kitchen'', ssid = ''HomeNet'', signal = 65\<rparr>,
      \<lparr>scan_timestamp = 1200, room = ''Kitchen'', ssid = ''HomeNet'', signal = 65\<rparr>,
      \<lparr>scan_timestamp = 5000, room = ''Kitchen'', ssid = ''HomeNet'', signal = 44\<rparr>,
      \<lparr>scan_timestamp = 5100, room = ''Kitchen'', ssid = ''HomeNet'', signal = 45\<rparr>,
      \<lparr>scan_timestamp = 5200, room = ''Kitchen'', ssid = ''HomeNet'', signal = 45\<rparr>] = Some r"
    and wp: "previous_avg_double (7200 - hours_delta 2) (7200 - hours_delta 1) ''Kitchen'' ''HomeNet''
     [\<lparr>scan_timestamp = 1000, room = ''Kitchen'', ssid = ''HomeNet'', signal = 64\<rparr>,
      \<lparr>scan_timestamp = 1100, room = ''Kitchen'', ssid = ''HomeNet'', signal = 65\<rparr>,
      \<lparr>scan_timestamp = 1200, room = ''Kitchen'', ssid = ''HomeNet'', signal = 65\<rparr>,
      \<lparr>scan_timestamp = 5000, room = ''Kitchen'', ssid = ''HomeNet'', signal = 44\<rparr>,
      \<lparr>scan_timestamp = 5100, room = ''Kitchen'', ssid = ''HomeNet'', signal = 45\<rparr>,
      \<lparr>scan_timestamp = 5200, room = ''Kitchen'', ssid = ''HomeNet'', signal = 45\<rparr>] = Some p"
    and wc: "check_signal_degradation 7200
     (Inr [\<lparr>scan_timestamp = 1000, room = ''Kitchen'', ssid = ''HomeNet'', signal = 64\<rparr>,
      \<lparr>scan_timestamp = 1100, room = ''Kitchen'', ssid = ''HomeNet'', signal = 65\<rparr>,
      \<lparr>scan_timestamp = 1200, room = ''Kitchen'', ssid = ''HomeNet'', signal = 65\<rparr>,
      \<lparr>scan_timestamp = 5000, room = ''Kitchen'', ssid = ''HomeNet'', signal = 44\<rparr>,
      \<lparr>scan_timestamp = 5100, room = ''Kitchen'', ssid = ''HomeNet'', signal = 45\<rparr>,
      \<lparr>scan_timestamp = 5200, room = ''Kitchen'', ssid = ''HomeNet'', signal = 45\<rparr>]) ''Kitchen'' ''HomeNet'' []
     = (if fl (dbm_double r - dbm_double p) < - 10
        then (Inr (Some (degradation_alert 7200 ''Kitchen'' ''HomeNet'' r p)),
              [] @ [degradation_alert 7200 ''Kitchen'' ''HomeNet'' r p])
        else (Inr None, []))"
    by blast
  have req: "r = (6286274479871317 / 140737488355328)" using wr unfolding vra by (simp only: option.inject)
  have peq: "p = (4550512123488939 / 70368744177664)" using wp unfolding vpa by (simp only: option.inject)
  have third: "check_signal_degradation 7200
     (Inr [\<lparr>scan_timestamp = 1000, room = ''Kitchen'', ssid = ''HomeNet'', signal = 64\<rparr>,
      \<lparr>scan_timestamp = 1100, room = ''Kitchen'', ssid = ''HomeNet'', signal = 65\<rparr>,
      \<lparr>scan_timestamp = 1200, room = ''Kitchen'', ssid = ''HomeNet'', signal = 65\<rparr>,
      \<lparr>scan_timestamp = 5000, room = ''Kitchen'', ssid = ''HomeNet'', signal = 44\<rparr>,
      \<lparr>scan_timestamp = 5100, room = ''Kitchen'', ssid = ''HomeNet'', signal = 45\<rparr>,
      \<lparr>scan_timestamp = 5200, room = ''Kitchen'', ssid = ''HomeNet'', signal = 45\<rparr>]) ''Kitchen'' ''HomeNet'' []
   = (Inr (Some (degradation_alert 7200 ''Kitchen'' ''HomeNet'' (6286274479871317 / 140737488355328) (4550512123488939 / 70368744177664))),
      [degradation_alert 7200 ''Kitchen'' ''HomeNet'' (6286274479871317 / 140737488355328) (4550512123488939 / 70368744177664)])"
    using wc unfolding req peq vdeg by simp
  from first second third show ?thesis by blast
qed

text \<open>
  A window whose samples average to zero is not treated as data: with \<open>-50\<close> and \<open>50\<close> in
  the previous window and \<open>-90\<close> in the recent one, both windows hold samples and the drop
  passes the threshold under either conversion, yet nothing is emitted.
\<close>

theorem check_signal_degradation_zero_average_counterexample:
  "recent_rows (7200 - hours_delta 1) ''Kitchen'' ''HomeNet''
     [\<lparr>scan_timestamp = 1000, room = ''Kitchen'', ssid = ''HomeNet'', signal = - 50\<rparr>,
      \<lparr>scan_timestamp = 1100, room = ''Kitchen'', ssid = ''HomeNet'', signal = 50\<rparr>,
      \<lparr>scan_timestamp = 5000, room = ''Kitchen'', ssid = ''HomeNet'', signal = - 90\<rparr>] \<noteq> []
   \<and> previous_rows (7200 - hours_delta 2) (7200 - hours_delta 1) ''Kitchen'' ''HomeNet''
     [\<lparr>scan_timestamp = 1000, room = ''Kitchen'', ssid = ''HomeNet'', signal = - 50\<rparr>,
      \<lparr>scan_timestamp = 1100, room = ''Kitchen'', ssid = ''HomeNet'', signal = 50\<rparr>,
      \<lparr>scan_timestamp = 5000, room = ''Kitchen'', ssid = ''HomeNet'', signal = - 90\<rparr>] \<noteq> []
   \<and> recent_avg (7200 - hours_delta 1) ''Kitchen'' ''HomeNet''
     [\<lparr>scan_timestamp = 1000, room = ''Kitchen'', ssid = ''HomeNet'', signal = - 50\<rparr>,
      \<lparr>scan_timestamp = 1100, room = ''Kitchen'', ssid = ''HomeNet'', signal = 50\<rparr>,
      \<lparr>scan_timestamp = 5000, room = ''Kitchen'', ssid = ''HomeNet'', signal = - 90\<rparr>] = Some (- 90)
   \<and> previous_avg (7200 - hours_delta 2) (7200 - hours_delta 1) ''Kitchen'' ''HomeNet''
     [\<lparr>scan_timestamp = 1000, room = ''Kitchen'', ssid = ''HomeNet'', signal = - 50\<rparr>,
      \<lparr>scan_timestamp = 1100, room = ''Kitchen'', ssid = ''HomeNet'', signal = 50\<rparr>,
      \<lparr>scan_timestamp = 5000, room = ''Kitchen'', ssid = ''HomeNet'', signal = - 90\<rparr>] = Some 0
   \<and> avg_to_dbm (- 90) - avg_to_dbm 0 < - 10
   \<and> spec_mean_dbm (map signal (recent_rows (7200 - hours_delta 1) ''Kitchen'' ''HomeNet''
     [\<lparr>scan_timestamp = 1000, room = ''Kitchen'', ssid = ''HomeNet'', signal = - 50\<rparr>,
      \<lparr>scan_timestamp = 1100, room = ''Kitchen'', ssid = ''HomeNet'', signal = 50\<rparr>,
      \<lparr>scan_timestamp = 5000, room = ''Kitchen'', ssid = ''HomeNet'', signal = - 90\<rparr>])) = Some (- 90)
   \<and> spec_mean_dbm (map signal
        (previous_rows (7200 - hours_delta 2) (7200 - hours_delta 1) ''Kitchen'' ''HomeNet''
     [\<lparr>scan_timestamp = 1000, room = ''Kitchen'', ssid = ''HomeNet'', signal = - 50\<rparr>,
      \<lparr>scan_timestamp = 1100, room = ''Kitchen'', ssid = ''HomeNet'', signal = 50\<rparr>,
      \<lparr>scan_timestamp = 5000, room = ''Kitchen'', ssid = ''HomeNet'', signal = - 90\<rparr>])) = Some (- 125 / 2)
   \<and> (- 90 :: real) - (- 125 / 2) < - 10
   \<and> previous_avg_double (7200 - hours_delta 2) (7200 - hours_delta 1) ''Kitchen'' ''HomeNet''
     [\<lparr>scan_timestamp = 1000, room = ''Kitchen'', ssid = ''HomeNet'', signal = - 50\<rparr>,
      \<lparr>scan_timestamp = 1100, room = ''Kitchen'', ssid = ''HomeNet'', signal = 50\<rparr>,
      \<lparr>scan_timestamp = 5000, room = ''Kitchen'', ssid = ''HomeNet'', signal = - 90\<rparr>] = Some 0
   \<and> check_signal_degradation 7200
     (Inr [\<lparr>scan_timestamp = 1000, room = ''Kitchen'', ssid = ''HomeNet'', signal = - 50\<rparr>,
      \<lparr>scan_timestamp = 1100, room = ''Kitchen'', ssid = ''HomeNet'', signal = 50\<rparr>,
      \<lparr>scan_timestamp = 5000, room = ''Kitchen'', ssid = ''HomeNet'', signal = - 90\<rparr>]) ''Kitchen'' ''HomeNet'' []
   = (Inr None, [])"
proof -
  have pz: "previous_avg_double (7200 - hours_delta 2) (7200 - hours_delta 1) ''Kitchen'' ''HomeNet''
     [\<lparr>scan_timestamp = 1000, room = ''Kitchen'', ssid = ''HomeNet'', signal = - 50\<rparr>,
      \<lparr>scan_timestamp = 1100, room = ''Kitchen'', ssid = ''HomeNet'', signal = 50\<rparr>,
      \<lparr>scan_timestamp = 5000, room = ''Kitchen'', ssid = ''HomeNet'', signal = - 90\<rparr>] = Some 0"
    by (simp add: previous_avg_double_def previous_rows_def hours_delta_def avg_double_def
        fl_zero)
  have none: "check_signal_degradation 7200
     (Inr [\<lparr>scan_timestamp = 1000, room = ''Kitchen'', ssid = ''HomeNet'', signal = - 50\<rparr>,
      \<lparr>scan_timestamp = 1100, room = ''Kitchen'', ssid = ''HomeNet'', signal = 50\<rparr>,
      \<lparr>scan_timestamp = 5000, room = ''Kitchen'', ssid = ''HomeNet'', signal = - 90\<rparr>]) ''Kitchen'' ''HomeNet'' []
   = (Inr None, [])"
    unfolding check_signal_degradation_eq pz by (simp split: option.split)
  have claim_side: "recent_rows (7200 - hours_delta 1) ''Kitchen'' ''HomeNet''
     [\<lparr>scan_timestamp = 1000, room = ''Kitchen'', ssid = ''HomeNet'', signal = - 50\<rparr>,
      \<lparr>scan_timestamp = 1100, room = ''Kitchen'', ssid = ''HomeNet'', signal = 50\<rparr>,
      \<lparr>scan_timestamp = 5000, room = ''Kitchen'', ssid = ''HomeNet'', signal = - 90\<rparr>] \<noteq> []
   \<and> previous_rows (7200 - hours_delta 2) (7200 - hours_delta 1) ''Kitchen'' ''HomeNet''
     [\<lparr>scan_timestamp = 1000, room = ''Kitchen'', ssid = ''HomeNet'', signal = - 50\<rparr>,
      \<lparr>scan_timestamp = 1100, room = ''Kitchen'', ssid = ''HomeNet'', signal = 50\<rparr>,
      \<lparr>scan_timestamp = 5000, room = ''Kitchen'', ssid = ''HomeNet'', signal = - 90\<rparr>] \<noteq> []
   \<and> recent_avg (7200 - hours_delta 1) ''Kitchen'' ''HomeNet''
     [\<lparr>scan_timestamp = 1000, room = ''Kitchen'', ssid = ''HomeNet'', signal = - 50\<rparr>,
      \<lparr>scan_timestamp = 1100, room = ''Kitchen'', ssid = ''HomeNet'', signal = 50\<rparr>,
      \<lparr>scan_timestamp = 5000, room = ''Kitchen'', ssid = ''HomeNet'', signal = - 90\<rparr>] = Some (- 90)
   \<and> previous_avg (7200 - hours_delta 2) (7200 - hours_delta 1) ''Kitchen'' ''HomeNet''
     [\<lparr>scan_timestamp = 1000, room = ''Kitchen'', ssid = ''HomeNet'', signal = - 50\<rparr>,
      \<lparr>scan_timestamp = 1100, room = ''Kitchen'', ssid = ''HomeNet'', signal = 50\<rparr>,
      \<lparr>scan_timestamp = 5000, room = ''Kitchen'', ssid = ''HomeNet'', signal = - 90\<rparr>] = Some 0
   \<and> avg_to_dbm (- 90) - avg_to_dbm 0 < - 10
   \<and> spec_mean_dbm (map signal (recent_rows (7200 - hours_delta 1) ''Kitchen'' ''HomeNet''
     [\<lparr>scan_timestamp = 1000, room = ''Kitchen'', ssid = ''HomeNet'', signal = - 50\<rparr>,
      \<lparr>scan_timestamp = 1100, room = ''Kitchen'', ssid = ''HomeNet'', signal = 50\<rparr>,
      \<lparr>scan_timestamp = 5000, room = ''Kitchen'', ssid = ''HomeNet'', signal = - 90\<rparr>])) = Some (- 90)
   \<and> spec_mean_dbm (map signal
        (previous_rows (7200 - hours_delta 2) (7200 - hours_delta 1) ''Kitchen'' ''HomeNet''
     [\<lparr>scan_timestamp = 1000, room = ''Kitchen'', ssid = ''HomeNet'', signal = - 50\<rparr>,
      \<lparr>scan_timestamp = 1100, room = ''Kitchen'', ssid = ''HomeNet'', signal = 50\<rparr>,
      \<lparr>scan_timestamp = 5000, room = ''Kitchen'', ssid = ''HomeNet'', signal = - 90\<rparr>])) = Some (- 125 / 2)
   \<and> (- 90 :: real) - (- 125 / 2) < - 10"
    by (simp add: recent_avg_def previous_avg_def recent_rows_def previous_rows_def sql_avg_def hours_delta_def avg_to_dbm_def spec_mean_dbm_def signal_dbm_def)
  from claim_side pz none show ?thesis by blast
qed

section \<open>The whole pass\<close>

text \<open>
  C7. With the same table and the same clock reading, a second \<^verbatim>\<open>check_all\<close> right after the
  first returns the same alerts: the poor-signal alert of every group below the threshold
  and the disappearance alert of every missing pair, again. The ledger holds them twice;
  nothing suppresses the repetition.
\<close>

theorem check_all_repeats_alerts:
  "\<exists>found. check_all now (Inr rows) (Inr rows) alerts = (Inr found, alerts @ found)
     \<and> check_all now (Inr rows) (Inr rows) (alerts @ found) = (Inr found, alerts @ found @ found)
     \<and> found =
         map (poor_alert now)
             (filter (\<lambda>(rm, s, v). avg_to_dbm v < POOR_SIGNAL_THRESHOLD)
                (poor_signal_query (now - hours_delta 1) rows)) @
         map (disappeared_alert now)
             (disappearance_query (now - hours_delta 2) (now - minutes_delta 30) rows)"
  by (simp add: check_all_eq)

theorem check_all_repeats_alerts_witness:
  "check_all 7200
     (Inr [\<lparr>scan_timestamp = 1800, room = ''Kitchen'', ssid = ''HomeNet'', signal = 50\<rparr>,
           \<lparr>scan_timestamp = 7000, room = ''Kitchen'', ssid = ''Guest'', signal = 30\<rparr>])
     (Inr [\<lparr>scan_timestamp = 1800, room = ''Kitchen'', ssid = ''HomeNet'', signal = 50\<rparr>,
           \<lparr>scan_timestamp = 7000, room = ''Kitchen'', ssid = ''Guest'', signal = 30\<rparr>])
     [poor_alert 7200 (''Kitchen'', ''Guest'', 30), disappeared_alert 7200 (''Kitchen'', ''HomeNet'')]
   = (Inr [poor_alert 7200 (''Kitchen'', ''Guest'', 30),
           disappeared_alert 7200 (''Kitchen'', ''HomeNet'')],
      [poor_alert 7200 (''Kitchen'', ''Guest'', 30), disappeared_alert 7200 (''Kitchen'', ''HomeNet''),
       poor_alert 7200 (''Kitchen'', ''Guest'', 30), disappeared_alert 7200 (''Kitchen'', ''HomeNet'')])"
proof -
  have q1: "filter (\<lambda>(rm, s, v). avg_to_dbm v < POOR_SIGNAL_THRESHOLD)
      (poor_signal_query (7200 - hours_delta 1)
        [\<lparr>scan_timestamp = 1800, room = ''Kitchen'', ssid = ''HomeNet'', signal = 50\<rparr>,
         \<lparr>scan_timestamp = 7000, room = ''Kitchen'', ssid = ''Guest'', signal = 30\<rparr>])
      = [(''Kitchen'', ''Guest'', 30)]"
    by (simp add: poor_signal_query_def hours_delta_def Let_def List.map_filter_simps sql_avg_def
        avg_to_dbm_def POOR_SIGNAL_THRESHOLD_def)
  have q2: "disappearance_query (7200 - hours_delta 2) (7200 - minutes_delta 30)
        [\<lparr>scan_timestamp = 1800, room = ''Kitchen'', ssid = ''HomeNet'', signal = 50\<rparr>,
         \<lparr>scan_timestamp = 7000, room = ''Kitchen'', ssid = ''Guest'', signal = 30\<rparr>]
      = [(''Kitchen'', ''HomeNet'')]"
    by (simp add: disappearance_query_def hours_delta_def minutes_delta_def Let_def)
  from check_all_repeats_alerts [of 7200
        "[\<lparr>scan_timestamp = 1800, room = ''Kitchen'', ssid = ''HomeNet'', signal = 50\<rparr>,
          \<lparr>scan_timestamp = 7000, room = ''Kitchen'', ssid = ''Guest'', signal = 30\<rparr>]" "[]"]
  show ?thesis
    unfolding q1 q2 by auto
qed

text \<open>
  C6 (as amended). The rules are not wrapped one by one: a failure raised in one rule
  ends \<^verbatim>\<open>check_all\<close> with that error. When the database call of the poor-signal check
  fails, the disappearance check is not run and the ledger is unchanged. When a write of
  \<^verbatim>\<open>alerts.json\<close> fails in the poor-signal check, the disappearance check is not run
  either, and the ledger in memory holds the alerts appended so far, the unsaved one
  included. When the disappearance check fails, the poor-signal alerts already appended
  stay in the ledger but are not returned. Alerts are returned only when both checks
  succeed, and then they are what the ledger has gained.
\<close>

theorem check_all_aborts_on_failure:
  "check_all_saving saved now (Inl e0) db2 alerts = (Inl e0, alerts)
   \<and> (\<forall>e alerts1. check_poor_signal_saving saved now (Inr rows1) alerts = (Inl e, alerts1) \<longrightarrow>
          check_all_saving saved now (Inr rows1) db2 alerts = (Inl e, alerts1)
          \<and> e = OSError \<and> \<not> saved alerts1 \<and> strict_prefix alerts alerts1)
   \<and> (\<forall>found1 alerts1 e alerts2.
          check_poor_signal_saving saved now db1 alerts = (Inr found1, alerts1)
          \<and> check_network_disappearance_saving saved now db2 alerts1 = (Inl e, alerts2) \<longrightarrow>
          check_all_saving saved now db1 db2 alerts = (Inl e, alerts2)
          \<and> alerts1 = alerts @ found1 \<and> prefix alerts1 alerts2)
   \<and> (\<forall>found alerts'. check_all_saving saved now db1 db2 alerts = (Inr found, alerts') \<longrightarrow>
          (\<exists>rows1 rows2 found1 found2. db1 = Inr rows1 \<and> db2 = Inr rows2
             \<and> check_poor_signal_saving saved now db1 alerts = (Inr found1, alerts @ found1)
             \<and> check_network_disappearance_saving saved now db2 (alerts @ found1) =
                 (Inr found2, alerts @ found1 @ found2)
             \<and> found = found1 @ found2 \<and> alerts' = alerts @ found))"
proof -
  have poorInr: "a' = a @ f"
    if "check_poor_signal_saving saved now db a = (Inr f, a')" for db f a a'
    using that poor_signal_loop_saving_Inr [of saved now _ "[]" a f a']
    by (cases db) (auto simp: check_poor_signal_saving_def Let_def)
  have disInr: "a' = a @ f"
    if "check_network_disappearance_saving saved now db a = (Inr f, a')" for db f a a'
    using that disappearance_loop_saving_Inr [of saved now _ "[]" a f a']
    by (cases db) (auto simp: check_network_disappearance_saving_def Let_def)
  have disInl: "prefix a a'"
    if "check_network_disappearance_saving saved now db a = (Inl e, a')" for db e a a'
    using that disappearance_loop_saving_Inl [of saved now _ "[]" a e a']
    by (cases db) (auto simp: check_network_disappearance_saving_def Let_def
        strict_prefix_def)
  have a: "check_all_saving saved now (Inl e0) db2 alerts = (Inl e0, alerts)"
    by (simp add: check_all_saving_def check_poor_signal_saving_def)
  have b: "\<forall>e alerts1. check_poor_signal_saving saved now (Inr rows1) alerts = (Inl e, alerts1) \<longrightarrow>
          check_all_saving saved now (Inr rows1) db2 alerts = (Inl e, alerts1)
          \<and> e = OSError \<and> \<not> saved alerts1 \<and> strict_prefix alerts alerts1"
    using poor_signal_loop_saving_Inl [of saved now _ "[]" alerts]
    by (auto simp: check_all_saving_def check_poor_signal_saving_def Let_def)
  have c: "\<forall>found1 alerts1 e alerts2.
          check_poor_signal_saving saved now db1 alerts = (Inr found1, alerts1)
          \<and> check_network_disappearance_saving saved now db2 alerts1 = (Inl e, alerts2) \<longrightarrow>
          check_all_saving saved now db1 db2 alerts = (Inl e, alerts2)
          \<and> alerts1 = alerts @ found1 \<and> prefix alerts1 alerts2"
    using poorInr disInl by (auto simp: check_all_saving_def)
  have d: "\<forall>found alerts'. check_all_saving saved now db1 db2 alerts = (Inr found, alerts') \<longrightarrow>
          (\<exists>rows1 rows2 found1 found2. db1 = Inr rows1 \<and> db2 = Inr rows2
             \<and> check_poor_signal_saving saved now db1 alerts = (Inr found1, alerts @ found1)
             \<and> check_network_disappearance_saving saved now db2 (alerts @ found1) =
                 (Inr found2, alerts @ found1 @ found2)
             \<and> found = found1 @ found2 \<and> alerts' = alerts @ found)"
  proof (intro allI impI)
    fix found alerts'
    assume h: "check_all_saving saved now db1 db2 alerts = (Inr found, alerts')"
    obtain r1 a1 where p: "check_poor_signal_saving saved now db1 alerts = (r1, a1)"
      by (cases "check_poor_signal_saving saved now db1 alerts")
    from h p obtain f1 where r1: "r1 = Inr f1"
      by (cases r1) (auto simp: check_all_saving_def)
    obtain r2 a2 where q: "check_network_disappearance_saving saved now db2 a1 = (r2, a2)"
      by (cases "check_network_disappearance_saving saved now db2 a1")
    from h p r1 q obtain f2 where r2: "r2 = Inr f2"
      by (cases r2) (auto simp: check_all_saving_def)
    from h p r1 q r2 have res: "found = f1 @ f2" "alerts' = a2"
      by (auto simp: check_all_saving_def)
    from poorInr [of db1 alerts f1 a1] p r1 have a1: "a1 = alerts @ f1" by simp
    from disInr [of db2 a1 f2 a2] q r2 have a2: "a2 = a1 @ f2" by simp
    have d1: "\<exists>rows1. db1 = Inr rows1"
      using p r1 by (cases db1) (auto simp: check_poor_signal_saving_def)
    have d2: "\<exists>rows2. db2 = Inr rows2"
      using q r2 by (cases db2) (auto simp: check_network_disappearance_saving_def)
    from d1 d2 p r1 q r2 res a1 a2
    show "\<exists>rows1 rows2 found1 found2. db1 = Inr rows1 \<and> db2 = Inr rows2
             \<and> check_poor_signal_saving saved now db1 alerts = (Inr found1, alerts @ found1)
             \<and> check_network_disappearance_saving saved now db2 (alerts @ found1) =
                 (Inr found2, alerts @ found1 @ found2)
             \<and> found = found1 @ found2 \<and> alerts' = alerts @ found"
      by auto
  qed
  from a b c d show ?thesis by blast
qed

text \<open>
  With no write succeeding, the pass ends in the poor-signal check and leaves its alert in
  the ledger; with the second write failing, it ends in the disappearance check and
  leaves both alerts there.
\<close>

theorem check_all_aborts_on_failure_witness:
  "check_all_saving (\<lambda>l. False) 7200
     (Inr [\<lparr>scan_timestamp = 1800, room = ''Kitchen'', ssid = ''HomeNet'', signal = 50\<rparr>,
      \<lparr>scan_timestamp = 7000, room = ''Kitchen'', ssid = ''Guest'', signal = 30\<rparr>])
     (Inr [\<lparr>scan_timestamp = 1800, room = ''Kitchen'', ssid = ''HomeNet'', signal = 50\<rparr>,
      \<lparr>scan_timestamp = 7000, room = ''Kitchen'', ssid = ''Guest'', signal = 30\<rparr>]) []
   = (Inl OSError, [poor_alert 7200 (''Kitchen'', ''Guest'', 30)])
   \<and> check_all_saving (\<lambda>l. length l < 2) 7200
     (Inr [\<lparr>scan_timestamp = 1800, room = ''Kitchen'', ssid = ''HomeNet'', signal = 50\<rparr>,
      \<lparr>scan_timestamp = 7000, room = ''Kitchen'', ssid = ''Guest'', signal = 30\<rparr>])
     (Inr [\<lparr>scan_timestamp = 1800, room = ''Kitchen'', ssid = ''HomeNet'', signal = 50\<rparr>,
      \<lparr>scan_timestamp = 7000, room = ''Kitchen'', ssid = ''Guest'', signal = 30\<rparr>]) []
   = (Inl OSError, [poor_alert 7200 (''Kitchen'', ''Guest'', 30), disappeared_alert 7200 (''Kitchen'', ''HomeNet'')])"
proof -
  have q1: "poor_signal_query (7200 - hours_delta 1)
     [\<lparr>scan_timestamp = 1800, room = ''Kitchen'', ssid = ''HomeNet'', signal = 50\<rparr>,
      \<lparr>scan_timestamp = 7000, room = ''Kitchen'', ssid = ''Guest'', signal = 30\<rparr>] = [(''Kitchen'', ''Guest'', 30)]"
    by (simp add: poor_signal_query_def hours_delta_def Let_def List.map_filter_simps sql_avg_def)
  have q2: "disappearance_query (7200 - hours_delta 2) (7200 - minutes_delta 30)
     [\<lparr>scan_timestamp = 1800, room = ''Kitchen'', ssid = ''HomeNet'', signal = 50\<rparr>,
      \<lparr>scan_timestamp = 7000, room = ''Kitchen'', ssid = ''Guest'', signal = 30\<rparr>] = [(''Kitchen'', ''HomeNet'')]"
    by (simp add: disappearance_query_def hours_delta_def minutes_delta_def Let_def)
  have thr: "avg_to_dbm 30 < POOR_SIGNAL_THRESHOLD"
    by (simp add: avg_to_dbm_def POOR_SIGNAL_THRESHOLD_def)
  have p0: "check_poor_signal_saving (\<lambda>l. False) 7200
     (Inr [\<lparr>scan_timestamp = 1800, room = ''Kitchen'', ssid = ''HomeNet'', signal = 50\<rparr>,
      \<lparr>scan_timestamp = 7000, room = ''Kitchen'', ssid = ''Guest'', signal = 30\<rparr>]) []
     = (Inl OSError, [poor_alert 7200 (''Kitchen'', ''Guest'', 30)])"
    unfolding check_poor_signal_saving_def by (simp add: q1 poor_signal_loop_saving_Cons thr)
  have p1: "check_poor_signal_saving (\<lambda>l. length l < 2) 7200
     (Inr [\<lparr>scan_timestamp = 1800, room = ''Kitchen'', ssid = ''HomeNet'', signal = 50\<rparr>,
      \<lparr>scan_timestamp = 7000, room = ''Kitchen'', ssid = ''Guest'', signal = 30\<rparr>]) []
     = (Inr [poor_alert 7200 (''Kitchen'', ''Guest'', 30)], [poor_alert 7200 (''Kitchen'', ''Guest'', 30)])"
    unfolding check_poor_signal_saving_def by (simp add: q1 poor_signal_loop_saving_Cons thr)
  have d1: "check_network_disappearance_saving (\<lambda>l. length l < 2) 7200
     (Inr [\<lparr>scan_timestamp = 1800, room = ''Kitchen'', ssid = ''HomeNet'', signal = 50\<rparr>,
      \<lparr>scan_timestamp = 7000, room = ''Kitchen'', ssid = ''Guest'', signal = 30\<rparr>]) [poor_alert 7200 (''Kitchen'', ''Guest'', 30)]
     = (Inl OSError, [poor_alert 7200 (''Kitchen'', ''Guest'', 30), disappeared_alert 7200 (''Kitchen'', ''HomeNet'')])"
    unfolding check_network_disappearance_saving_def
    by (simp add: q2 disappearance_loop_saving_Cons NETWORK_DISAPPEARANCE_MINUTES_def)
  have first: "check_all_saving (\<lambda>l. False) 7200
     (Inr [\<lparr>scan_timestamp = 1800, room = ''Kitchen'', ssid = ''HomeNet'', signal = 50\<rparr>,
      \<lparr>scan_timestamp = 7000, room = ''Kitchen'', ssid = ''Guest'', signal = 30\<rparr>])
     (Inr [\<lparr>scan_timestamp = 1800, room = ''Kitchen'', ssid = ''HomeNet'', signal = 50\<rparr>,
      \<lparr>scan_timestamp = 7000, room = ''Kitchen'', ssid = ''Guest'', signal = 30\<rparr>]) []
   = (Inl OSError, [poor_alert 7200 (''Kitchen'', ''Guest'', 30)])"
    using check_all_aborts_on_failure [where saved = "\<lambda>l. False" and now = 7200
        and alerts = "[]" and ?rows1.0 = "[\<lparr>scan_timestamp = 1800, room = ''Kitchen'', ssid = ''HomeNet'', signal = 50\<rparr>,
      \<lparr>scan_timestamp = 7000, room = ''Kitchen'', ssid = ''Guest'', signal = 30\<rparr>]"
        and ?db2.0 = "Inr [\<lparr>scan_timestamp = 1800, room = ''Kitchen'', ssid = ''HomeNet'', signal = 50\<rparr>,
      \<lparr>scan_timestamp = 7000, room = ''Kitchen'', ssid = ''Guest'', signal = 30\<rparr>]",
        THEN conjunct2, THEN conjunct1, THEN spec, THEN spec, THEN mp, OF p0]
    by simp
  have second: "check_all_saving (\<lambda>l. length l < 2) 7200
     (Inr [\<lparr>scan_timestamp = 1800, room = ''Kitchen'', ssid = ''HomeNet'', signal = 50\<rparr>,
      \<lparr>scan_timestamp = 7000, room = ''Kitchen'', ssid = ''Guest'', signal = 30\<rparr>])
     (Inr [\<lparr>scan_timestamp = 1800, room = ''Kitchen'', ssid = ''HomeNet'', signal = 50\<rparr>,
      \<lparr>scan_timestamp = 7000, room = ''Kitchen'', ssid = ''Guest'', signal = 30\<rparr>]) []
   = (Inl OSError, [poor_alert 7200 (''Kitchen'', ''Guest'', 30), disappeared_alert 7200 (''Kitchen'', ''HomeNet'')])"
    using check_all_aborts_on_failure [where saved = "\<lambda>l. length l < 2" and now = 7200
        and alerts = "[]"
        and ?db1.0 = "Inr [\<lparr>scan_timestamp = 1800, room = ''Kitchen'', ssid = ''HomeNet'', signal = 50\<rparr>,
      \<lparr>scan_timestamp = 7000, room = ''Kitchen'', ssid = ''Guest'', signal = 30\<rparr>]"
        and ?db2.0 = "Inr [\<lparr>scan_timestamp = 1800, room = ''Kitchen'', ssid = ''HomeNet'', signal = 50\<rparr>,
      \<lparr>scan_timestamp = 7000, room = ''Kitchen'', ssid = ''Guest'', signal = 30\<rparr>]",
        THEN conjunct2, THEN conjunct2, THEN conjunct1, THEN spec, THEN spec, THEN spec, THEN spec,
        THEN mp, OF conjI [OF p1 d1]]
    by simp
  from first second show ?thesis by blast
qed

text \<open>
  The rules are not wrapped one by one: with a table in which a network has disappeared,
  the disappearance check alone emits its alert, but a pass whose poor-signal check fails
  returns only the error and emits nothing.
\<close>

theorem check_all_claim_counterexample:
  "check_network_disappearance 7200
     (Inr [\<lparr>scan_timestamp = 1800, room = ''Kitchen'', ssid = ''HomeNet'', signal = 50\<rparr>]) []
   = (Inr [disappeared_alert 7200 (''Kitchen'', ''HomeNet'')],
      [disappeared_alert 7200 (''Kitchen'', ''HomeNet'')])
   \<and> check_all 7200 (Inl OperationalError)
     (Inr [\<lparr>scan_timestamp = 1800, room = ''Kitchen'', ssid = ''HomeNet'', signal = 50\<rparr>]) []
   = (Inl OperationalError, [])"
  by (simp add: check_network_disappearance_eq disappearance_query_def hours_delta_def
      minutes_delta_def Let_def check_all_def check_poor_signal_Inl)

end
